theory Spec2Isabelle
  imports Main "HOL-Library.AList"
begin

section \<open>Data model (the declarations of \<^verbatim>\<open>types\<close>)\<close>

text \<open>
  The interfaces of the repository become records. A field that TypeScript marks
  optional (\<^verbatim>\<open>sha?\<close>, \<^verbatim>\<open>url?\<close>, \<^verbatim>\<open>error?\<close>) is an \<open>option\<close>.
  Field names that occur in more than one interface carry the interface as a prefix,
  because record fields share one name space; \<^verbatim>\<open>File.size\<close> is \<open>size_bytes\<close>, and a
  parameter that the source calls \<^verbatim>\<open>image\<close> is \<open>img\<close>, since \<open>size\<close> and \<open>image\<close> are
  constants of HOL.

  A JavaScript string is modelled as a \<open>string\<close>, a list of 8-bit characters. The
  service itself never looks at a code unit beyond that range other than as one more
  character outside \<^verbatim>\<open>[a-zA-Z0-9.-]\<close>; the one platform function that does,
  \<^verbatim>\<open>btoa\<close>, is a parameter that may throw.
\<close>

record ImageMetadata =
  filename :: string
  description :: string
  url :: string
  timestamp :: string
  sha :: "string option"

record MetadataFile =
  images :: "ImageMetadata list"

record GitHubFileResponse =
  content :: string
  file_sha :: string
  file_name :: string
  file_path :: string
  download_url :: string

record UploadResult =
  upload_success :: bool
  upload_url :: "string option"
  upload_error :: "string option"

record DeleteResult =
  delete_success :: bool
  delete_error :: "string option"

text \<open>
  The browser's \<^verbatim>\<open>File\<close>, as far as the service reads it: its name, its declared
  MIME type, its size in bytes, and what \<^verbatim>\<open>FileReader.readAsDataURL\<close> delivers
  (a data URL, or the value passed to \<^verbatim>\<open>onerror\<close>).
\<close>

datatype js_error =
    AxiosError "(nat \<times> string option) option" string
  | Error string
  | Thrown

text \<open>
  \<open>AxiosError resp msg\<close>: \<open>resp\<close> is \<^verbatim>\<open>error.response\<close> (absent when no response
  arrived), holding \<^verbatim>\<open>response.status\<close> and \<^verbatim>\<open>response.data.message\<close>;
  \<open>msg\<close> is \<^verbatim>\<open>error.message\<close>. \<open>Error msg\<close> is any other instance of
  \<^verbatim>\<open>Error\<close> (TypeError, SyntaxError, ...). \<open>Thrown\<close> is a thrown or rejected value
  that is no \<^verbatim>\<open>Error\<close> (the event that \<^verbatim>\<open>reader.onerror = reject\<close> passes on).
\<close>

record File =
  name :: string
  type :: string
  size_bytes :: nat
  dataURL :: "js_error + string"

record Validation =
  valid :: bool
  validation_error :: "string option"

section \<open>Values and platform\<close>

text \<open>
  What \<^verbatim>\<open>JSON.parse\<close> can return. The service types the result as
  \<^verbatim>\<open>MetadataFile\<close>, but at run time it is whatever document the repository holds,
  so the model keeps the JSON value and lets every property access and method call
  on it fail the way JavaScript does. An object is the list of its own properties in
  insertion order. The payload of a number is never inspected.
\<close>

datatype json =
    JNull
  | JBool bool
  | JNum int
  | JStr string
  | JArr "json list"
  | JObj "(string \<times> json) list"

text \<open>
  The platform the module runs on: the build-time environment variables, the
  browser's \<^verbatim>\<open>atob\<close>, \<^verbatim>\<open>btoa\<close>, \<^verbatim>\<open>JSON.parse\<close> and
  \<^verbatim>\<open>JSON.stringify\<close> (those that can throw return a sum), and the two clock
  readings of an upload: \<^verbatim>\<open>new Date().toISOString()\<close> and \<^verbatim>\<open>Date.now()\<close>.
\<close>

record platform =
  VITE_GITHUB_TOKEN :: "string option"
  VITE_GITHUB_REPO :: "string option"
  VITE_GITHUB_BRANCH :: "string option"
  atob :: "string \<Rightarrow> js_error + string"
  btoa :: "string \<Rightarrow> js_error + string"
  JSON_parse :: "string \<Rightarrow> js_error + json"
  JSON_stringify :: "json \<Rightarrow> string"
  Date_toISOString :: string
  Date_now :: nat

record config =
  token :: string
  repo :: string
  branch :: string

subsection \<open>Requests, the remote store, asynchronous results\<close>

record put_payload =
  put_message :: string
  put_content :: "string option"
  put_branch :: string
  put_sha :: "string option"

record delete_payload =
  delete_message :: string
  delete_sha :: string
  delete_branch :: string

text \<open>
  A request of the axios client: the bearer token of its \<^verbatim>\<open>Authorization\<close> header,
  the repository and the path of \<^verbatim>\<open>/repos/${repo}/contents/${path}\<close>, and the branch
  (\<^verbatim>\<open>ref\<close>) or the body. The cache-busting \<^verbatim>\<open>t\<close> of a GET is not recorded.
\<close>

datatype request =
    Get string string string string
  | Put string string string put_payload
  | Delete string string string delete_payload

text \<open>
  The remote store is any function from the requests issued so far and the present
  request to an outcome: the \<^verbatim>\<open>response.data\<close> of a successful call, or the error
  axios rejects with. For a PUT the data is reduced to \<^verbatim>\<open>data.content.sha\<close>.
\<close>

record server =
  on_get :: "request list \<Rightarrow> request \<Rightarrow> js_error + GitHubFileResponse"
  on_put :: "request list \<Rightarrow> request \<Rightarrow> js_error + string"
  on_delete :: "request list \<Rightarrow> request \<Rightarrow> js_error + unit"

text \<open>
  An asynchronous function takes the log of requests issued so far and returns how its
  promise settles (\<open>Inl\<close>: rejected, \<open>Inr\<close>: fulfilled) with the extended log.
\<close>

type_synonym 'a async = "request list \<Rightarrow> (js_error + 'a) \<times> request list"

definition resolve :: "'a \<Rightarrow> 'a async" where
  "resolve x = (\<lambda>log. (Inr x, log))"

definition reject :: "js_error \<Rightarrow> 'a async" where
  "reject e = (\<lambda>log. (Inl e, log))"

definition settle :: "js_error + 'a \<Rightarrow> 'a async" where
  "settle r = (\<lambda>log. (r, log))"

definition await :: "'a async \<Rightarrow> ('a \<Rightarrow> 'b async) \<Rightarrow> 'b async" where
  "await m f = (\<lambda>log. case m log of (Inl e, log') \<Rightarrow> (Inl e, log') | (Inr x, log') \<Rightarrow> f x log')"

definition try_catch :: "'a async \<Rightarrow> (js_error \<Rightarrow> 'a async) \<Rightarrow> 'a async" where
  "try_catch m h = (\<lambda>log. case m log of (Inl e, log') \<Rightarrow> h e log' | (Inr x, log') \<Rightarrow> (Inr x, log'))"

definition api_get :: "server \<Rightarrow> request \<Rightarrow> GitHubFileResponse async" where
  "api_get srv req = (\<lambda>log. (on_get srv log req, log @ [req]))"

definition api_put :: "server \<Rightarrow> request \<Rightarrow> string async" where
  "api_put srv req = (\<lambda>log. (on_put srv log req, log @ [req]))"

definition api_delete :: "server \<Rightarrow> request \<Rightarrow> unit async" where
  "api_delete srv req = (\<lambda>log. (on_delete srv log req, log @ [req]))"

subsection \<open>Property access and array methods on a parsed document\<close>

text \<open>
  \<^verbatim>\<open>v.key\<close> for a key that no prototype defines: a TypeError on \<^verbatim>\<open>null\<close>, the own
  property of an object, \<^verbatim>\<open>undefined\<close> (\<open>None\<close>) on everything else. The message
  of a TypeError is the engine's; the texts below stand for it.
\<close>

definition getProp :: "json \<Rightarrow> string \<Rightarrow> js_error + json option" where
  "getProp v key =
     (case v of
        JNull \<Rightarrow> Inl (Error ''Cannot read properties of null'')
      | JObj props \<Rightarrow> Inr (map_of props key)
      | _ \<Rightarrow> Inr None)"

definition setProp :: "json \<Rightarrow> string \<Rightarrow> json \<Rightarrow> json" where
  "setProp v key x = (case v of JObj props \<Rightarrow> JObj (AList.update key x props) | _ \<Rightarrow> v)"

text \<open>\<^verbatim>\<open>{ images: [] }\<close>\<close>

definition emptyMetadata :: json where
  "emptyMetadata = JObj [(''images'', JArr [])]"

text \<open>\<^verbatim>\<open>metadata.images.unshift(newImage)\<close> (line 140)\<close>

definition unshiftImage :: "json \<Rightarrow> json \<Rightarrow> js_error + json" where
  "unshiftImage metadata newImage =
     (case getProp metadata ''images'' of
        Inl e \<Rightarrow> Inl e
      | Inr None \<Rightarrow> Inl (Error ''Cannot read properties of undefined'')
      | Inr (Some (JArr xs)) \<Rightarrow> Inr (setProp metadata ''images'' (JArr (newImage # xs)))
      | Inr (Some JNull) \<Rightarrow> Inl (Error ''Cannot read properties of null'')
      | Inr (Some _) \<Rightarrow> Inl (Error ''metadata.images.unshift is not a function''))"

text \<open>
  \<^verbatim>\<open>metadata.images = metadata.images.filter((img) => img.filename !== image.filename)\<close>
  (line 197). The callback runs over the elements in order; the first one that throws
  ends the call.
\<close>

fun keepOthers :: "string \<Rightarrow> json list \<Rightarrow> js_error + json list" where
  "keepOthers fname [] = Inr []"
| "keepOthers fname (img # rest) =
     (case getProp img ''filename'' of
        Inl e \<Rightarrow> Inl e
      | Inr p \<Rightarrow>
          (case keepOthers fname rest of
             Inl e \<Rightarrow> Inl e
           | Inr kept \<Rightarrow> Inr (if p \<noteq> Some (JStr fname) then img # kept else kept)))"

definition filterImages :: "json \<Rightarrow> string \<Rightarrow> js_error + json" where
  "filterImages metadata fname =
     (case getProp metadata ''images'' of
        Inl e \<Rightarrow> Inl e
      | Inr None \<Rightarrow> Inl (Error ''Cannot read properties of undefined'')
      | Inr (Some (JArr xs)) \<Rightarrow>
          (case keepOthers fname xs of
             Inl e \<Rightarrow> Inl e
           | Inr kept \<Rightarrow> Inr (setProp metadata ''images'' (JArr kept)))
      | Inr (Some JNull) \<Rightarrow> Inl (Error ''Cannot read properties of null'')
      | Inr (Some _) \<Rightarrow> Inl (Error ''metadata.images.filter is not a function''))"

text \<open>A typed catalog as the document it is stored as; an absent \<^verbatim>\<open>sha\<close> has no key.\<close>

definition imageJson :: "ImageMetadata \<Rightarrow> json" where
  "imageJson img =
     JObj ([(''filename'', JStr (filename img)),
            (''description'', JStr (description img)),
            (''url'', JStr (url img)),
            (''timestamp'', JStr (timestamp img))]
           @ (case sha img of None \<Rightarrow> [] | Some s \<Rightarrow> [(''sha'', JStr s)]))"

definition metadataJson :: "MetadataFile \<Rightarrow> json" where
  "metadataJson m = JObj [(''images'', JArr (map imageJson (images m)))]"

section \<open>Pure helpers of \<^verbatim>\<open>services/github.ts\<close>\<close>

subsection \<open>The generated file name (lines 102 to 106)\<close>

text \<open>The character class \<^verbatim>\<open>[a-zA-Z0-9.-]\<close> of the regular expression.\<close>

definition inClass :: "char \<Rightarrow> bool" where
  "inClass c =
     (let n = (of_char c :: nat) in
        (97 \<le> n \<and> n \<le> 122) \<or> (65 \<le> n \<and> n \<le> 90) \<or> (48 \<le> n \<and> n \<le> 57)
        \<or> c = CHR ''.'' \<or> c = CHR ''-'')"

text \<open>\<^verbatim>\<open>file.name.replace(/[^a-zA-Z0-9.-]/g, '_')\<close>\<close>

definition sanitizedName :: "string \<Rightarrow> string" where
  "sanitizedName nm = map (\<lambda>c. if inClass c then c else CHR ''_'') nm"

text \<open>
  The decimal text of a number, as the template literal prints \<^verbatim>\<open>Date.now()\<close>
  (milliseconds since the epoch, a natural number for every clock after 1970).
\<close>

definition digitChar :: "nat \<Rightarrow> char" where
  "digitChar d = ''0123456789'' ! d"

fun decimal :: "nat \<Rightarrow> string" where
  "decimal n = (if n < 10 then [digitChar n] else decimal (n div 10) @ [digitChar (n mod 10)])"

declare decimal.simps [simp del]

text \<open>\<^verbatim>\<open>`${Date.now()}_${sanitizedName}`\<close>\<close>

definition generateFilename :: "nat \<Rightarrow> string \<Rightarrow> string" where
  "generateFilename now nm = decimal now @ ''_'' @ sanitizedName nm"

text \<open>
  Reading a generated name back: drop the leading run of digits (the epoch
  milliseconds) and the one underscore that separates it from the rest.
\<close>

definition isDigit :: "char \<Rightarrow> bool" where
  "isDigit c = (let n = (of_char c :: nat) in 48 \<le> n \<and> n \<le> 57)"

definition stripTimestamp :: "string \<Rightarrow> string" where
  "stripTimestamp fn = drop 1 (dropWhile isDigit fn)"

text \<open>Matching \<^verbatim>\<open>^[A-Za-z0-9.-]*$\<close>, and the same with the underscore admitted.\<close>

definition matchesClass :: "string \<Rightarrow> bool" where
  "matchesClass s = list_all inClass s"

definition matchesClassOrUnderscore :: "string \<Rightarrow> bool" where
  "matchesClassOrUnderscore s = list_all (\<lambda>c. inClass c \<or> c = CHR ''_'') s"

subsection \<open>\<^verbatim>\<open>getErrorMessage\<close> (lines 231 to 252)\<close>

definition getErrorMessage :: "js_error \<Rightarrow> string" where
  "getErrorMessage error =
     (case error of
        AxiosError resp msg \<Rightarrow>
          (case resp of
             None \<Rightarrow> msg
           | Some (status, data_message) \<Rightarrow>
               if status = 401 then ''Authentication failed. Please check your GitHub token.''
               else if status = 403 then
                 ''Access denied. Your token may lack the required permissions.''
               else if status = 404 then
                 ''Repository not found. Please check the repository name.''
               else if status = 422 then ''File already exists or invalid request.''
               else (case data_message of
                       None \<Rightarrow> msg
                     | Some m \<Rightarrow> if m \<noteq> [] then m else msg))
      | Error msg \<Rightarrow> msg
      | Thrown \<Rightarrow> ''An unexpected error occurred.'')"

subsection \<open>\<^verbatim>\<open>validateImageFile\<close> (lines 255 to 274)\<close>

definition allowedTypes :: "string list" where
  "allowedTypes = [''image/jpeg'', ''image/png'', ''image/gif'']"

definition maxSize :: nat where
  "maxSize = 10 * 1024 * 1024"

definition validateImageFile :: "File \<Rightarrow> Validation" where
  "validateImageFile file =
     (if type file \<notin> set allowedTypes then
        \<lparr>valid = False,
         validation_error =
           Some ''Invalid file type. Please upload a JPG, PNG, or GIF image.''\<rparr>
      else if size_bytes file > maxSize then
        \<lparr>valid = False,
         validation_error =
           Some ''File size exceeds 10MB limit. Please choose a smaller image.''\<rparr>
      else \<lparr>valid = True, validation_error = None\<rparr>)"

section \<open>The service: \<^verbatim>\<open>services/github.ts\<close>\<close>

subsection \<open>Configuration and client (lines 7 to 36)\<close>

text \<open>
  \<^verbatim>\<open>!token || !repo\<close>: an unset variable and the empty string are both falsy.
  \<^verbatim>\<open>VITE_GITHUB_BRANCH || 'main'\<close> falls back on the same condition.
\<close>

definition getConfig :: "platform \<Rightarrow> js_error + config" where
  "getConfig P =
     (case (VITE_GITHUB_TOKEN P, VITE_GITHUB_REPO P) of
        (Some tok, Some rp) \<Rightarrow>
          if tok = [] \<or> rp = [] then
            Inl (Error
              ''Missing required environment variables: VITE_GITHUB_TOKEN and VITE_GITHUB_REPO'')
          else
            Inr \<lparr>token = tok, repo = rp,
                 branch = (case VITE_GITHUB_BRANCH P of
                             None \<Rightarrow> ''main''
                           | Some b \<Rightarrow> if b \<noteq> [] then b else ''main'')\<rparr>
      | _ \<Rightarrow>
          Inl (Error
            ''Missing required environment variables: VITE_GITHUB_TOKEN and VITE_GITHUB_REPO''))"

text \<open>The client is its bearer token; creating it reads the configuration again.\<close>

definition createApiClient :: "platform \<Rightarrow> js_error + string" where
  "createApiClient P = (case getConfig P of Inl e \<Rightarrow> Inl e | Inr cfg \<Rightarrow> Inr (token cfg))"

definition getGitHubUrl :: "platform \<Rightarrow> string \<Rightarrow> js_error + string" where
  "getGitHubUrl P fname =
     (case getConfig P of
        Inl e \<Rightarrow> Inl e
      | Inr cfg \<Rightarrow>
          Inr (''https://github.com/'' @ repo cfg @ ''/blob/'' @ branch cfg @ ''/images/''
               @ fname @ ''?raw=true''))"

subsection \<open>\<^verbatim>\<open>fetchFile\<close> (lines 39 to 52)\<close>

text \<open>\<^verbatim>\<open>axios.isAxiosError(error) && error.response?.status === 404\<close>\<close>

definition isNotFound :: "js_error \<Rightarrow> bool" where
  "isNotFound error =
     (case error of AxiosError (Some (status, _)) _ \<Rightarrow> status = 404 | _ \<Rightarrow> False)"

definition fetchFile :: "platform \<Rightarrow> server \<Rightarrow> string \<Rightarrow> GitHubFileResponse option async" where
  "fetchFile P srv path =
     try_catch
       (await (settle (getConfig P)) (\<lambda>cfg.
        await (settle (createApiClient P)) (\<lambda>api.
        await (api_get srv (Get api (repo cfg) path (branch cfg))) (\<lambda>data.
        resolve (Some data)))))
       (\<lambda>error. if isNotFound error then resolve None else reject error)"

subsection \<open>\<^verbatim>\<open>fetchMetadata\<close> (lines 55 to 67)\<close>

definition fetchMetadata :: "platform \<Rightarrow> server \<Rightarrow> json async" where
  "fetchMetadata P srv =
     try_catch
       (await (fetchFile P srv ''metadata.json'') (\<lambda>file.
          case file of
            None \<Rightarrow> resolve emptyMetadata
          | Some f \<Rightarrow>
              await (settle (atob P (content f))) (\<lambda>decoded.
              settle (JSON_parse P decoded))))
       (\<lambda>error. resolve emptyMetadata)"

subsection \<open>\<^verbatim>\<open>createOrUpdateFile\<close> (lines 70 to 91)\<close>

text \<open>\<^verbatim>\<open>if (sha) payload.sha = sha\<close>: an absent or empty token is left out of the body.\<close>

definition truthy :: "string option \<Rightarrow> string option" where
  "truthy s = (case s of None \<Rightarrow> None | Some x \<Rightarrow> if x \<noteq> [] then Some x else None)"

definition createOrUpdateFile ::
  "platform \<Rightarrow> server \<Rightarrow> string \<Rightarrow> string \<Rightarrow> string \<Rightarrow> string option \<Rightarrow> string async" where
  "createOrUpdateFile P srv path text message prior =
     await (settle (getConfig P)) (\<lambda>cfg.
     await (settle (createApiClient P)) (\<lambda>api.
     await (settle (btoa P text)) (\<lambda>encoded.
     api_put srv
       (Put api (repo cfg) path
          \<lparr>put_message = message, put_content = Some encoded,
           put_branch = branch cfg, put_sha = truthy prior\<rparr>))))"

subsection \<open>\<^verbatim>\<open>fileToBase64\<close> (lines 216 to 228)\<close>

fun splitOn :: "char \<Rightarrow> string \<Rightarrow> string list" where
  "splitOn sep [] = [[]]"
| "splitOn sep (c # cs) =
     (if c = sep then [] # splitOn sep cs
      else (case splitOn sep cs of
              [] \<Rightarrow> [[c]]
            | piece # pieces \<Rightarrow> (c # piece) # pieces))"

text \<open>\<^verbatim>\<open>result.split(',')[1]\<close>, which is \<^verbatim>\<open>undefined\<close> when there is no comma.\<close>

definition fileToBase64 :: "File \<Rightarrow> string option async" where
  "fileToBase64 file =
     (case dataURL file of
        Inl e \<Rightarrow> reject e
      | Inr result \<Rightarrow>
          (case splitOn CHR '','' result of
             _ # base64 # _ \<Rightarrow> resolve (Some base64)
           | _ \<Rightarrow> resolve None))"

subsection \<open>\<^verbatim>\<open>uploadImage\<close> (lines 94 to 156)\<close>

text \<open>The catalog decode of lines 122 to 131.\<close>

definition uploadImage_decode :: "platform \<Rightarrow> GitHubFileResponse option \<Rightarrow> json" where
  "uploadImage_decode P existingMetadataFile =
     (case existingMetadataFile of
        None \<Rightarrow> emptyMetadata
      | Some f \<Rightarrow>
          (case atob P (content f) of
             Inl _ \<Rightarrow> emptyMetadata
           | Inr decoded \<Rightarrow>
               (case JSON_parse P decoded of
                  Inl _ \<Rightarrow> emptyMetadata
                | Inr metadata \<Rightarrow> metadata)))"

text \<open>The object literal of lines 133 to 139.\<close>

definition newImage :: "string \<Rightarrow> string \<Rightarrow> string \<Rightarrow> string \<Rightarrow> string \<Rightarrow> ImageMetadata" where
  "newImage fname descr imageUrl ts blob_sha =
     \<lparr>filename = fname, description = descr, url = imageUrl, timestamp = ts,
      sha = Some blob_sha\<rparr>"

text \<open>Lines 120 to 148: the catalog synchronization of an upload.\<close>

definition uploadImage_sync ::
  "platform \<Rightarrow> server \<Rightarrow> ImageMetadata \<Rightarrow> string async" where
  "uploadImage_sync P srv img =
     await (fetchFile P srv ''metadata.json'') (\<lambda>existingMetadataFile.
     await (settle (unshiftImage (uploadImage_decode P existingMetadataFile) (imageJson img)))
       (\<lambda>metadata.
     createOrUpdateFile P srv ''metadata.json'' (JSON_stringify P metadata)
       (''Add image: '' @ filename img)
       (map_option file_sha existingMetadataFile)))"

definition uploadImage_body :: "platform \<Rightarrow> server \<Rightarrow> File \<Rightarrow> string \<Rightarrow> UploadResult async" where
  "uploadImage_body P srv file descr =
     await (settle (getConfig P)) (\<lambda>cfg.
     await (settle (createApiClient P)) (\<lambda>api.
     let ts = Date_toISOString P;
         fname = generateFilename (Date_now P) (name file);
         path = ''images/'' @ fname
     in
     await (fileToBase64 file) (\<lambda>base64Content.
     await (api_put srv
              (Put api (repo cfg) path
                 \<lparr>put_message = ''Upload image: '' @ fname, put_content = base64Content,
                  put_branch = branch cfg, put_sha = None\<rparr>)) (\<lambda>blob_sha.
     await (settle (getGitHubUrl P fname)) (\<lambda>imageUrl.
     await (uploadImage_sync P srv (newImage fname descr imageUrl ts blob_sha)) (\<lambda>_.
     resolve \<lparr>upload_success = True, upload_url = Some imageUrl, upload_error = None\<rparr>))))))"

definition uploadImage :: "platform \<Rightarrow> server \<Rightarrow> File \<Rightarrow> string \<Rightarrow> UploadResult async" where
  "uploadImage P srv file descr =
     try_catch (uploadImage_body P srv file descr)
       (\<lambda>error. resolve \<lparr>upload_success = False, upload_url = None,
                        upload_error = Some (getErrorMessage error)\<rparr>)"

subsection \<open>\<^verbatim>\<open>deleteImage\<close> (lines 159 to 213)\<close>

text \<open>The catalog decode of lines 188 to 194.\<close>

definition deleteImage_decode :: "platform \<Rightarrow> GitHubFileResponse \<Rightarrow> json" where
  "deleteImage_decode P metadataFile =
     (case atob P (content metadataFile) of
        Inl _ \<Rightarrow> emptyMetadata
      | Inr decoded \<Rightarrow>
          (case JSON_parse P decoded of
             Inl _ \<Rightarrow> emptyMetadata
           | Inr metadata \<Rightarrow> metadata))"

text \<open>Lines 164 to 177: look the blob up and delete it if it is there.\<close>

definition deleteImage_blob :: "platform \<Rightarrow> server \<Rightarrow> config \<Rightarrow> string \<Rightarrow> ImageMetadata \<Rightarrow> unit async" where
  "deleteImage_blob P srv cfg api img =
     (let imagePath = ''images/'' @ filename img in
      await (fetchFile P srv imagePath) (\<lambda>imageFile.
        case imageFile of
          None \<Rightarrow> resolve ()
        | Some f \<Rightarrow>
            api_delete srv
              (Delete api (repo cfg) imagePath
                 \<lparr>delete_message = ''Delete image: '' @ filename img,
                  delete_sha = file_sha f, delete_branch = branch cfg\<rparr>)))"

text \<open>Lines 179 to 207: the catalog synchronization of a delete.\<close>

definition deleteImage_sync :: "platform \<Rightarrow> server \<Rightarrow> ImageMetadata \<Rightarrow> DeleteResult async" where
  "deleteImage_sync P srv img =
     await (fetchFile P srv ''metadata.json'') (\<lambda>metadataFile.
       case metadataFile of
         None \<Rightarrow> resolve \<lparr>delete_success = True, delete_error = None\<rparr>
       | Some mf \<Rightarrow>
           await (settle (filterImages (deleteImage_decode P mf) (filename img))) (\<lambda>metadata.
           await (createOrUpdateFile P srv ''metadata.json'' (JSON_stringify P metadata)
                    (''Remove image: '' @ filename img) (Some (file_sha mf))) (\<lambda>_.
           resolve \<lparr>delete_success = True, delete_error = None\<rparr>)))"

definition deleteImage_body :: "platform \<Rightarrow> server \<Rightarrow> ImageMetadata \<Rightarrow> DeleteResult async" where
  "deleteImage_body P srv img =
     await (settle (getConfig P)) (\<lambda>cfg.
     await (settle (createApiClient P)) (\<lambda>api.
     await (deleteImage_blob P srv cfg api img) (\<lambda>_.
     deleteImage_sync P srv img)))"

definition deleteImage :: "platform \<Rightarrow> server \<Rightarrow> ImageMetadata \<Rightarrow> DeleteResult async" where
  "deleteImage P srv img =
     try_catch (deleteImage_body P srv img)
       (\<lambda>error. resolve \<lparr>delete_success = False,
                        delete_error = Some (getErrorMessage error)\<rparr>)"

section \<open>Reading the request log\<close>

definition catalogGet :: "config \<Rightarrow> request" where
  "catalogGet cfg = Get (token cfg) (repo cfg) ''metadata.json'' (branch cfg)"

definition catalogPut :: "config \<Rightarrow> put_payload \<Rightarrow> request" where
  "catalogPut cfg payload = Put (token cfg) (repo cfg) ''metadata.json'' payload"

definition blobGet :: "config \<Rightarrow> string \<Rightarrow> request" where
  "blobGet cfg fname = Get (token cfg) (repo cfg) (''images/'' @ fname) (branch cfg)"

text \<open>
  The two requests on the blob of an image: the PUT of \<^verbatim>\<open>uploadImage\<close> (lines 112 to
  116) and the DELETE of \<^verbatim>\<open>deleteImage\<close> (lines 170 to 176).
\<close>

definition blobPut :: "config \<Rightarrow> string \<Rightarrow> string option \<Rightarrow> request" where
  "blobPut cfg fname base64Content =
     Put (token cfg) (repo cfg) (''images/'' @ fname)
       \<lparr>put_message = ''Upload image: '' @ fname, put_content = base64Content,
        put_branch = branch cfg, put_sha = None\<rparr>"

definition blobDelete :: "config \<Rightarrow> string \<Rightarrow> string \<Rightarrow> request" where
  "blobDelete cfg fname blob_sha =
     Delete (token cfg) (repo cfg) (''images/'' @ fname)
       \<lparr>delete_message = ''Delete image: '' @ fname, delete_sha = blob_sha,
        delete_branch = branch cfg\<rparr>"

text \<open>The address \<^verbatim>\<open>getGitHubUrl\<close> builds under a complete configuration.\<close>

definition githubUrl :: "config \<Rightarrow> string \<Rightarrow> string" where
  "githubUrl cfg fname =
     ''https://github.com/'' @ repo cfg @ ''/blob/'' @ branch cfg @ ''/images/'' @ fname
     @ ''?raw=true''"

text \<open>The result values the two orchestrators return.\<close>

definition uploadSuccess :: "string \<Rightarrow> UploadResult" where
  "uploadSuccess imageUrl =
     \<lparr>upload_success = True, upload_url = Some imageUrl, upload_error = None\<rparr>"

definition uploadFailure :: "js_error \<Rightarrow> UploadResult" where
  "uploadFailure error =
     \<lparr>upload_success = False, upload_url = None, upload_error = Some (getErrorMessage error)\<rparr>"

definition deleteSuccess :: DeleteResult where
  "deleteSuccess = \<lparr>delete_success = True, delete_error = None\<rparr>"

definition deleteFailure :: "js_error \<Rightarrow> DeleteResult" where
  "deleteFailure error =
     \<lparr>delete_success = False, delete_error = Some (getErrorMessage error)\<rparr>"

text \<open>The revision token a catalog fetch hands to the write that follows it.\<close>

definition fetchedToken :: "js_error + GitHubFileResponse \<Rightarrow> string option" where
  "fetchedToken response =
     (case response of Inl _ \<Rightarrow> None | Inr f \<Rightarrow> truthy (Some (file_sha f)))"

fun isDelete :: "request \<Rightarrow> bool" where
  "isDelete (Delete _ _ _ _) = True"
| "isDelete _ = False"

fun isPut :: "request \<Rightarrow> bool" where
  "isPut (Put _ _ _ _) = True"
| "isPut _ = False"

section \<open>A reference store and a sample repository\<close>

text \<open>
  The remote store is outside the repository. For concrete runs the development uses a
  small store that keeps the storage contract the service relies on: a path holds a
  content and a revision token; a GET of a missing path answers 404; a PUT creates a
  missing path when it carries no token and replaces an existing one when it carries
  the current token; a DELETE needs the current token; every write assigns a new token.
\<close>

type_synonym store = "(string \<times> string \<times> string) list"

definition revisionOf :: "string \<Rightarrow> string" where
  "revisionOf text = ''rev:'' @ text"

definition statusError :: "nat \<Rightarrow> string \<Rightarrow> js_error" where
  "statusError status msg =
     AxiosError (Some (status, Some msg)) (''Request failed with status code '' @ decimal status)"

definition store_get :: "store \<Rightarrow> request \<Rightarrow> js_error + GitHubFileResponse" where
  "store_get st req =
     (case req of
        Get _ _ path _ \<Rightarrow>
          (case map_of st path of
             None \<Rightarrow> Inl (statusError 404 ''Not Found'')
           | Some (text, tok) \<Rightarrow>
               Inr \<lparr>content = text, file_sha = tok, file_name = path, file_path = path,
                    download_url = []\<rparr>)
      | _ \<Rightarrow> Inl (statusError 400 ''Bad Request''))"

definition store_put :: "store \<Rightarrow> request \<Rightarrow> js_error + string" where
  "store_put st req =
     (case req of
        Put _ _ path payload \<Rightarrow>
          (case put_content payload of
             None \<Rightarrow> Inl (statusError 422 ''Invalid request'')
           | Some text \<Rightarrow>
               (case map_of st path of
                  None \<Rightarrow>
                    if put_sha payload = None then Inr (revisionOf text)
                    else Inl (statusError 409 ''Conflict'')
                | Some (_, tok) \<Rightarrow>
                    if put_sha payload = None then Inl (statusError 422 ''Invalid request'')
                    else if put_sha payload = Some tok then Inr (revisionOf text)
                    else Inl (statusError 409 ''Conflict'')))
      | _ \<Rightarrow> Inl (statusError 400 ''Bad Request''))"

definition store_delete :: "store \<Rightarrow> request \<Rightarrow> js_error + unit" where
  "store_delete st req =
     (case req of
        Delete _ _ path payload \<Rightarrow>
          (case map_of st path of
             None \<Rightarrow> Inl (statusError 404 ''Not Found'')
           | Some (_, tok) \<Rightarrow>
               if delete_sha payload = tok then Inr () else Inl (statusError 409 ''Conflict''))
      | _ \<Rightarrow> Inl (statusError 400 ''Bad Request''))"

text \<open>The store after a request: an accepted write takes effect, anything else does not.\<close>

definition store_apply :: "store \<Rightarrow> request \<Rightarrow> store" where
  "store_apply st req =
     (case req of
        Get _ _ _ _ \<Rightarrow> st
      | Put _ _ path payload \<Rightarrow>
          (case (store_put st req, put_content payload) of
             (Inr tok, Some text) \<Rightarrow> AList.update path (text, tok) st
           | _ \<Rightarrow> st)
      | Delete _ _ path _ \<Rightarrow>
          (case store_delete st req of Inr _ \<Rightarrow> AList.delete path st | Inl _ \<Rightarrow> st))"

definition storeServer :: "store \<Rightarrow> server" where
  "storeServer st =
     \<lparr>on_get = (\<lambda>log req. store_get (foldl store_apply st log) req),
      on_put = (\<lambda>log req. store_put (foldl store_apply st log) req),
      on_delete = (\<lambda>log req. store_delete (foldl store_apply st log) req)\<rparr>"

text \<open>A store that turns every request down with 401, as for a revoked credential.\<close>

definition unauthorized :: server where
  "unauthorized =
     \<lparr>on_get = (\<lambda>log req. Inl (statusError 401 ''Bad credentials'')),
      on_put = (\<lambda>log req. Inl (statusError 401 ''Bad credentials'')),
      on_delete = (\<lambda>log req. Inl (statusError 401 ''Bad credentials''))\<rparr>"

text \<open>
  The sample catalog holds one image. \<open>sampleText\<close> is what
  \<^verbatim>\<open>JSON.stringify(metadata, null, 2)\<close> prints for it and \<open>sampleBase64\<close> the base64 of
  that text.
\<close>

definition sampleImage :: ImageMetadata where
  "sampleImage =
     \<lparr>filename = ''1700000000000_cat.png'',
      description = ''a cat'',
      url = ''https://github.com/octo/pics/blob/main/images/1700000000000_cat.png?raw=true'',
      timestamp = ''2023-11-14T22:13:20.000Z'',
      sha = Some ''3b18e512dba79e4c8300dd08aeb37f8e728b8dad''\<rparr>"

definition sampleCatalog :: MetadataFile where
  "sampleCatalog = \<lparr>images = [sampleImage]\<rparr>"

definition joinLines :: "string list \<Rightarrow> string" where
  "joinLines ls = (case ls of [] \<Rightarrow> [] | l # rest \<Rightarrow> foldl (\<lambda>acc x. acc @ [CHR 0x0A] @ x) l rest)"

definition sampleText :: string where
  \<open>sampleText = joinLines
     [''{'',
      ''  "images": ['',
      ''    {'',
      ''      "filename": "1700000000000_cat.png",'',
      ''      "description": "a cat",'',
      ''      "url": "https://github.com/octo/pics/blob/main/images/1700000000000_cat.png?raw=true",'',
      ''      "timestamp": "2023-11-14T22:13:20.000Z",'',
      ''      "sha": "3b18e512dba79e4c8300dd08aeb37f8e728b8dad"'',
      ''    }'',
      ''  ]'',
      ''}'']\<close>

definition sampleBase64 :: string where
  "sampleBase64 = ''ewogICJpbWFnZXMiOiBbCiAgICB7CiAgICAgICJmaWxlbmFtZSI6ICIxNzAwMDAwMDAwMDAwX2NhdC5wbmciLAogICAgICAiZGVzY3JpcHRpb24iOiAiYSBjYXQiLAogICAgICAidXJsIjogImh0dHBzOi8vZ2l0aHViLmNvbS9vY3RvL3BpY3MvYmxvYi9tYWluL2ltYWdlcy8xNzAwMDAwMDAwMDAwX2NhdC5wbmc/cmF3PXRydWUiLAogICAgICAidGltZXN0YW1wIjogIjIwMjMtMTEtMTRUMjI6MTM6MjAuMDAwWiIsCiAgICAgICJzaGEiOiAiM2IxOGU1MTJkYmE3OWU0YzgzMDBkZDA4YWViMzdmOGU3MjhiOGRhZCIKICAgIH0KICBdCn0=''"

text \<open>
  Uploading \<open>catFile\<close> (below) with the description \<^verbatim>\<open>another cat\<close> at the instant
  the sample image was uploaded produces \<open>duplicateImage\<close>; \<open>duplicateCatalog\<close> is the
  sample catalog with that entry in front, \<open>duplicateText\<close> and \<open>duplicateBase64\<close> its
  printed and encoded forms.
\<close>

definition duplicateImage :: ImageMetadata where
  "duplicateImage =
     \<lparr>filename = ''1700000000000_cat.png'',
      description = ''another cat'',
      url = ''https://github.com/octo/pics/blob/main/images/1700000000000_cat.png?raw=true'',
      timestamp = ''2023-11-14T22:13:20.000Z'',
      sha = Some ''rev:iVBORw==''\<rparr>"

definition duplicateCatalog :: MetadataFile where
  "duplicateCatalog = \<lparr>images = [duplicateImage, sampleImage]\<rparr>"

definition duplicateText :: string where
  \<open>duplicateText = joinLines
     [''{'',
      ''  "images": ['',
      ''    {'',
      ''      "filename": "1700000000000_cat.png",'',
      ''      "description": "another cat",'',
      ''      "url": "https://github.com/octo/pics/blob/main/images/1700000000000_cat.png?raw=true",'',
      ''      "timestamp": "2023-11-14T22:13:20.000Z",'',
      ''      "sha": "rev:iVBORw=="'',
      ''    },'',
      ''    {'',
      ''      "filename": "1700000000000_cat.png",'',
      ''      "description": "a cat",'',
      ''      "url": "https://github.com/octo/pics/blob/main/images/1700000000000_cat.png?raw=true",'',
      ''      "timestamp": "2023-11-14T22:13:20.000Z",'',
      ''      "sha": "3b18e512dba79e4c8300dd08aeb37f8e728b8dad"'',
      ''    }'',
      ''  ]'',
      ''}'']\<close>

definition duplicateBase64 :: string where
  "duplicateBase64 = ''ewogICJpbWFnZXMiOiBbCiAgICB7CiAgICAgICJmaWxlbmFtZSI6ICIxNzAwMDAwMDAwMDAwX2NhdC5wbmciLAogICAgICAiZGVzY3JpcHRpb24iOiAiYW5vdGhlciBjYXQiLAogICAgICAidXJsIjogImh0dHBzOi8vZ2l0aHViLmNvbS9vY3RvL3BpY3MvYmxvYi9tYWluL2ltYWdlcy8xNzAwMDAwMDAwMDAwX2NhdC5wbmc/cmF3PXRydWUiLAogICAgICAidGltZXN0YW1wIjogIjIwMjMtMTEtMTRUMjI6MTM6MjAuMDAwWiIsCiAgICAgICJzaGEiOiAicmV2OmlWQk9Sdz09IgogICAgfSwKICAgIHsKICAgICAgImZpbGVuYW1lIjogIjE3MDAwMDAwMDAwMDBfY2F0LnBuZyIsCiAgICAgICJkZXNjcmlwdGlvbiI6ICJhIGNhdCIsCiAgICAgICJ1cmwiOiAiaHR0cHM6Ly9naXRodWIuY29tL29jdG8vcGljcy9ibG9iL21haW4vaW1hZ2VzLzE3MDAwMDAwMDAwMDBfY2F0LnBuZz9yYXc9dHJ1ZSIsCiAgICAgICJ0aW1lc3RhbXAiOiAiMjAyMy0xMS0xNFQyMjoxMzoyMC4wMDBaIiwKICAgICAgInNoYSI6ICIzYjE4ZTUxMmRiYTc5ZTRjODMwMGRkMDhhZWIzN2Y4ZTcyOGI4ZGFkIgogICAgfQogIF0KfQ==''"

text \<open>
  A browser reduced to the documents of the sample repository: its codecs agree with
  \<^verbatim>\<open>atob\<close>, \<^verbatim>\<open>btoa\<close>, \<^verbatim>\<open>JSON.parse\<close> and \<^verbatim>\<open>JSON.stringify\<close> on the two
  catalogs above and on the malformed document \<^verbatim>\<open>not json\<close>, and turn every other
  input down. Its clock stands at the instant the sample image was uploaded.
\<close>

definition browser :: platform where
  "browser =
     \<lparr>VITE_GITHUB_TOKEN = Some ''ghp_example'',
      VITE_GITHUB_REPO = Some ''octo/pics'',
      VITE_GITHUB_BRANCH = None,
      atob = (\<lambda>s. if s = sampleBase64 then Inr sampleText
                   else if s = duplicateBase64 then Inr duplicateText
                   else if s = ''bm90IGpzb24='' then Inr ''not json''
                   else Inl (Error ''InvalidCharacterError'')),
      btoa = (\<lambda>s. if s = sampleText then Inr sampleBase64
                   else if s = duplicateText then Inr duplicateBase64
                   else if s = ''not json'' then Inr ''bm90IGpzb24=''
                   else Inl (Error ''InvalidCharacterError'')),
      JSON_parse = (\<lambda>s. if s = sampleText then Inr (metadataJson sampleCatalog)
                         else if s = duplicateText then Inr (metadataJson duplicateCatalog)
                         else Inl (Error ''Unexpected token'')),
      JSON_stringify = (\<lambda>j. if j = metadataJson sampleCatalog then sampleText
                             else if j = metadataJson duplicateCatalog then duplicateText
                             else []),
      Date_toISOString = ''2023-11-14T22:13:20.000Z'',
      Date_now = 1700000000000\<rparr>"

definition browserConfig :: config where
  "browserConfig = \<lparr>token = ''ghp_example'', repo = ''octo/pics'', branch = ''main''\<rparr>"

text \<open>
  Three repositories: an empty one; one that holds the sample catalog but not the
  blob of its image; one whose catalog file is the malformed document.
\<close>

definition emptyStore :: store where
  "emptyStore = []"

definition sampleStore :: store where
  "sampleStore = [(''metadata.json'', (sampleBase64, ''9a1f27c4''))]"

definition corruptStore :: store where
  "corruptStore = [(''metadata.json'', (''bm90IGpzb24='', ''77c0d1e2''))]"

text \<open>The catalog files those two repositories answer a fetch with.\<close>

definition sampleFile :: GitHubFileResponse where
  "sampleFile =
     \<lparr>content = sampleBase64, file_sha = ''9a1f27c4'', file_name = ''metadata.json'',
      file_path = ''metadata.json'', download_url = []\<rparr>"

definition corruptFile :: GitHubFileResponse where
  "corruptFile =
     \<lparr>content = ''bm90IGpzb24='', file_sha = ''77c0d1e2'', file_name = ''metadata.json'',
      file_path = ''metadata.json'', download_url = []\<rparr>"

definition otherImage :: ImageMetadata where
  "otherImage =
     \<lparr>filename = ''1700000000999_dog.png'',
      description = ''a dog'',
      url = ''https://github.com/octo/pics/blob/main/images/1700000000999_dog.png?raw=true'',
      timestamp = ''2023-11-14T22:13:20.999Z'',
      sha = None\<rparr>"

definition catFile :: File where
  "catFile =
     \<lparr>name = ''cat.png'', type = ''image/png'', size_bytes = 4,
      dataURL = Inr ''data:image/png;base64,iVBORw==''\<rparr>"

text \<open>The request that uploads the blob of \<open>catFile\<close> from the sample browser.\<close>

definition catBlobPut :: request where
  "catBlobPut =
     Put ''ghp_example'' ''octo/pics'' ''images/1700000000000_cat.png''
       \<lparr>put_message = ''Upload image: 1700000000000_cat.png'',
        put_content = Some ''iVBORw=='', put_branch = ''main'', put_sha = None\<rparr>"

section \<open>The generated file name\<close>

lemma digitChar_isDigit: "d < 10 \<Longrightarrow> isDigit (digitChar d)"
proof -
  assume "d < 10"
  then have "d \<in> {0, 1, 2, 3, 4, 5, 6, 7, 8, 9}" by auto
  then show ?thesis by (auto simp: digitChar_def isDigit_def)
qed

lemma decimal_digits: "list_all isDigit (decimal n)"
proof (induction n rule: decimal.induct)
  case (1 n)
  show ?case
  proof (cases "n < 10")
    case True
    then show ?thesis by (subst decimal.simps) (simp add: digitChar_isDigit)
  next
    case False
    then have "list_all isDigit (decimal (n div 10))" using 1 by simp
    moreover have "isDigit (digitChar (n mod 10))" by (rule digitChar_isDigit) simp
    ultimately show ?thesis using False by (subst decimal.simps) simp
  qed
qed

lemma decimal_numeral [simp]:
  "decimal (numeral k) =
     (if (numeral k :: nat) < 10 then [digitChar (numeral k)]
      else decimal (numeral k div 10) @ [digitChar (numeral k mod 10)])"
  by (rule decimal.simps)

lemma decimal_small [simp]: "decimal 0 = ''0''" "decimal 1 = ''1''" "decimal (Suc 0) = ''1''"
  by (simp_all add: decimal.simps digitChar_def)

lemma stripTimestamp_generateFilename:
  "stripTimestamp (generateFilename now nm) = sanitizedName nm"
proof -
  have "\<not> isDigit CHR ''_''" by (simp add: isDigit_def)
  then have "dropWhile isDigit (decimal now @ CHR ''_'' # sanitizedName nm)
             = CHR ''_'' # sanitizedName nm"
    using decimal_digits[of now] by (simp add: list_all_iff dropWhile_append)
  then show ?thesis by (simp add: stripTimestamp_def generateFilename_def)
qed

text \<open>
  C8, as stated, fails: a name with a character outside the class keeps the
  underscore that replaced it, and the underscore is not in \<^verbatim>\<open>[A-Za-z0-9.-]\<close>.
  Uploading \<^verbatim>\<open>my photo.png\<close> gives \<^verbatim>\<open><millis>_my_photo.png\<close>, and
  \<^verbatim>\<open>my_photo.png\<close> does not match \<^verbatim>\<open>^[A-Za-z0-9.-]*$\<close>.
\<close>

theorem sanitized_not_in_class_counterexample:
  "\<not> matchesClass (stripTimestamp (generateFilename 1700000000000 ''my photo.png''))"
  by (simp add: stripTimestamp_generateFilename sanitizedName_def matchesClass_def inClass_def)

text \<open>
  C8, amended: for every original name and every clock reading, the generated file name
  without its timestamp prefix and separating underscore is the sanitized name; the
  sanitized name has the length of the original, keeps every character of
  \<^verbatim>\<open>[A-Za-z0-9.-]\<close> and has \<^verbatim>\<open>_\<close> in place of every other character; so it
  matches \<^verbatim>\<open>^[A-Za-z0-9._-]*$\<close>.
\<close>

theorem sanitized_filename_class:
  "stripTimestamp (generateFilename now nm) = sanitizedName nm \<and>
   length (sanitizedName nm) = length nm \<and>
   (\<forall>i < length nm. sanitizedName nm ! i = (if inClass (nm ! i) then nm ! i else CHR ''_'')) \<and>
   matchesClassOrUnderscore (sanitizedName nm)"
  by (auto simp: stripTimestamp_generateFilename sanitizedName_def matchesClassOrUnderscore_def
      list_all_iff)

theorem sanitized_filename_class_witness:
  "stripTimestamp (generateFilename 1700000000000 ''my photo.png'') = ''my_photo.png'' \<and>
   (2::nat) < length ''my photo.png'' \<and>
   sanitizedName ''my photo.png'' ! 2 = CHR ''_'' \<and>
   matchesClassOrUnderscore ''my_photo.png''"
  using sanitized_filename_class[of 1700000000000 "''my photo.png''"]
  by (simp add: sanitizedName_def inClass_def)

section \<open>File validation\<close>

text \<open>
  C9: \<^verbatim>\<open>validateImageFile\<close> answers valid exactly for a file whose declared type is
  one of \<^verbatim>\<open>image/jpeg\<close>, \<^verbatim>\<open>image/png\<close>, \<^verbatim>\<open>image/gif\<close> and whose size is at most
  \<^verbatim>\<open>10 * 1024 * 1024\<close> bytes, then without a message; otherwise it answers invalid
  with a message, and the type is checked first: a file of a wrong type gets the type
  message whatever its size, a file of a right type that is too large the size message.
\<close>

theorem validateImageFile_spec:
  "(valid (validateImageFile file) \<longleftrightarrow>
      type file \<in> {''image/jpeg'', ''image/png'', ''image/gif''} \<and>
      size_bytes file \<le> 10 * 1024 * 1024) \<and>
   (valid (validateImageFile file) \<longrightarrow> validation_error (validateImageFile file) = None) \<and>
   (\<not> valid (validateImageFile file) \<longrightarrow> validation_error (validateImageFile file) \<noteq> None) \<and>
   (type file \<notin> {''image/jpeg'', ''image/png'', ''image/gif''} \<longrightarrow>
      validateImageFile file =
        \<lparr>valid = False,
         validation_error =
           Some ''Invalid file type. Please upload a JPG, PNG, or GIF image.''\<rparr>) \<and>
   (type file \<in> {''image/jpeg'', ''image/png'', ''image/gif''} \<and>
    size_bytes file > 10 * 1024 * 1024 \<longrightarrow>
      validateImageFile file =
        \<lparr>valid = False,
         validation_error =
           Some ''File size exceeds 10MB limit. Please choose a smaller image.''\<rparr>)"
  by (simp add: validateImageFile_def allowedTypes_def maxSize_def)

theorem validateImageFile_spec_witness:
  "valid (validateImageFile catFile) \<and>
   validation_error (validateImageFile catFile) = None \<and>
   \<not> valid (validateImageFile (catFile\<lparr>type := ''image/webp'', size_bytes := 10485761\<rparr>)) \<and>
   validateImageFile (catFile\<lparr>type := ''image/webp'', size_bytes := 10485761\<rparr>) =
     \<lparr>valid = False,
      validation_error = Some ''Invalid file type. Please upload a JPG, PNG, or GIF image.''\<rparr> \<and>
   validateImageFile (catFile\<lparr>size_bytes := 10485761\<rparr>) =
     \<lparr>valid = False,
      validation_error = Some ''File size exceeds 10MB limit. Please choose a smaller image.''\<rparr> \<and>
   valid (validateImageFile (catFile\<lparr>size_bytes := 10485760\<rparr>))"
  using validateImageFile_spec[of catFile]
    validateImageFile_spec[of "catFile\<lparr>type := ''image/webp'', size_bytes := 10485761\<rparr>"]
    validateImageFile_spec[of "catFile\<lparr>size_bytes := 10485761\<rparr>"]
    validateImageFile_spec[of "catFile\<lparr>size_bytes := 10485760\<rparr>"]
  by (simp add: catFile_def)

section \<open>Catalog mutations on typed catalogs\<close>

lemma getProp_imageJson: "getProp (imageJson i) ''filename'' = Inr (Some (JStr (filename i)))"
  by (simp add: getProp_def imageJson_def)

lemma keepOthers_images:
  "keepOthers f (map imageJson xs) = Inr (map imageJson (filter (\<lambda>i. filename i \<noteq> f) xs))"
  by (induction xs) (simp_all add: getProp_imageJson)

lemma unshiftImage_metadataJson:
  "unshiftImage (metadataJson C) (imageJson E) = Inr (metadataJson (C\<lparr>images := E # images C\<rparr>))"
  by (simp add: unshiftImage_def metadataJson_def getProp_def setProp_def)

lemma filterImages_metadataJson:
  "filterImages (metadataJson C) f =
     Inr (metadataJson (C\<lparr>images := filter (\<lambda>i. filename i \<noteq> f) (images C)\<rparr>))"
  by (simp add: filterImages_def metadataJson_def getProp_def setProp_def keepOthers_images)

lemma filter_absent:
  "f \<notin> set (map filename xs) \<Longrightarrow> filter (\<lambda>i. filename i \<noteq> f) xs = xs"
  by (induction xs) auto

text \<open>
  C1: for every catalog \<open>C\<close> and every entry \<open>E\<close> whose file name does not occur in
  \<open>C\<close>, the mutation of an upload (\<^verbatim>\<open>unshift\<close>) applied to \<open>C\<close> succeeds, and the
  mutation of a delete (\<^verbatim>\<open>filter\<close> on file name inequality) applied to its result with
  the file name of \<open>E\<close> gives \<open>C\<close> back.
\<close>

theorem add_remove_roundtrip:
  fixes C :: MetadataFile and E :: ImageMetadata
  assumes "filename E \<notin> set (map filename (images C))"
  shows "\<exists>M. unshiftImage (metadataJson C) (imageJson E) = Inr M \<and>
             M = metadataJson (C\<lparr>images := E # images C\<rparr>) \<and>
             filterImages M (filename E) = Inr (metadataJson C)"
  using assms by (simp add: unshiftImage_metadataJson filterImages_metadataJson filter_absent)

theorem add_remove_roundtrip_witness:
  "filename otherImage \<notin> set (map filename (images sampleCatalog)) \<and>
   unshiftImage (metadataJson sampleCatalog) (imageJson otherImage) =
     Inr (metadataJson \<lparr>images = [otherImage, sampleImage]\<rparr>) \<and>
   filterImages (metadataJson \<lparr>images = [otherImage, sampleImage]\<rparr>) (filename otherImage) =
     Inr (metadataJson sampleCatalog)"
proof -
  have h: "filename otherImage \<notin> set (map filename (images sampleCatalog))"
    by (simp add: otherImage_def sampleCatalog_def sampleImage_def)
  show ?thesis
    using add_remove_roundtrip[OF h] h by (simp add: sampleCatalog_def)
qed

section \<open>How the asynchronous functions run\<close>

lemmas async_defs = resolve_def reject_def settle_def await_def try_catch_def
  api_get_def api_put_def api_delete_def

lemma isl_of_Inl: "Inl x = s \<Longrightarrow> isl s"
  by auto

lemma try_catch_fst:
  "fst (try_catch m (\<lambda>e. resolve (h e)) log) =
     (case fst (m log) of Inl e \<Rightarrow> Inr (h e) | Inr x \<Rightarrow> Inr x)"
  by (simp add: try_catch_def resolve_def split: prod.splits sum.splits)

lemma try_catch_snd: "snd (try_catch m (\<lambda>e. resolve (h e)) log) = snd (m log)"
  by (simp add: try_catch_def resolve_def split: prod.splits sum.splits)

lemma createApiClient_ok: "getConfig P = Inr cfg \<Longrightarrow> createApiClient P = Inr (token cfg)"
  by (simp add: createApiClient_def)

lemma getGitHubUrl_ok:
  "getConfig P = Inr cfg \<Longrightarrow>
   getGitHubUrl P fname =
     Inr (''https://github.com/'' @ repo cfg @ ''/blob/'' @ branch cfg @ ''/images/'' @ fname
          @ ''?raw=true'')"
  by (simp add: getGitHubUrl_def)



lemma fetchFile_config:
  "getConfig P = Inr cfg \<Longrightarrow>
   fetchFile P srv path log =
     ((case on_get srv log (Get (token cfg) (repo cfg) path (branch cfg)) of
         Inr d \<Rightarrow> Inr (Some d)
       | Inl e \<Rightarrow> if isNotFound e then Inr None else Inl e),
      log @ [Get (token cfg) (repo cfg) path (branch cfg)])"
  by (simp add: fetchFile_def async_defs createApiClient_ok split: sum.splits)

lemma createOrUpdateFile_config:
  "getConfig P = Inr cfg \<Longrightarrow>
   createOrUpdateFile P srv path text message prior log =
     (case btoa P text of
        Inl e \<Rightarrow> (Inl e, log)
      | Inr encoded \<Rightarrow>
          (on_put srv log (Put (token cfg) (repo cfg) path
              \<lparr>put_message = message, put_content = Some encoded,
               put_branch = branch cfg, put_sha = truthy prior\<rparr>),
           log @ [Put (token cfg) (repo cfg) path
              \<lparr>put_message = message, put_content = Some encoded,
               put_branch = branch cfg, put_sha = truthy prior\<rparr>]))"
  by (simp add: createOrUpdateFile_def async_defs createApiClient_ok split: sum.splits)



lemma upload_sync_trace:
  assumes "getConfig P = Inr cfg" "uploadImage_sync P srv img log = (r, log')"
  shows "(log' = log @ [catalogGet cfg] \<and> isl r) \<or>
         (\<exists>pl. log' = log @ [catalogGet cfg, catalogPut cfg pl] \<and>
               put_sha pl = fetchedToken (on_get srv log (catalogGet cfg)) \<and>
               r = on_put srv (log @ [catalogGet cfg]) (catalogPut cfg pl))"
  using assms
  by (auto simp: uploadImage_sync_def fetchFile_config createOrUpdateFile_config
      catalogGet_def catalogPut_def fetchedToken_def truthy_def await_def settle_def
      split: sum.splits option.splits if_splits dest: isl_of_Inl)

lemma delete_sync_trace:
  assumes "getConfig P = Inr cfg" "deleteImage_sync P srv img log = (r, log')"
  shows "(log' = log @ [catalogGet cfg] \<and>
          (isl r \<or> (\<exists>e. on_get srv log (catalogGet cfg) = Inl e \<and> isNotFound e \<and>
                       r = Inr \<lparr>delete_success = True, delete_error = None\<rparr>))) \<or>
         (\<exists>pl. log' = log @ [catalogGet cfg, catalogPut cfg pl] \<and>
               put_sha pl = fetchedToken (on_get srv log (catalogGet cfg)) \<and>
               r = map_sum id (\<lambda>_. \<lparr>delete_success = True, delete_error = None\<rparr>)
                     (on_put srv (log @ [catalogGet cfg]) (catalogPut cfg pl)))"
  using assms
  by (auto simp: deleteImage_sync_def fetchFile_config createOrUpdateFile_config
      catalogGet_def catalogPut_def fetchedToken_def truthy_def await_def settle_def resolve_def
      split: sum.splits option.splits if_splits dest: isl_of_Inl)

lemma deleteImage_blob_absent:
  assumes "getConfig P = Inr cfg"
    and "on_get srv log (blobGet cfg (filename img)) = Inl e" and "isNotFound e"
  shows "deleteImage_blob P srv cfg (token cfg) img log =
           (Inr (), log @ [blobGet cfg (filename img)])"
  using assms
  by (simp add: deleteImage_blob_def Let_def await_def resolve_def fetchFile_config blobGet_def)

lemma deleteImage_body_config:
  assumes "getConfig P = Inr cfg"
  shows "deleteImage_body P srv img log =
     (case deleteImage_blob P srv cfg (token cfg) img log of
        (Inl e, l) \<Rightarrow> (Inl e, l)
      | (Inr u, l) \<Rightarrow> deleteImage_sync P srv img l)"
  using assms
  by (simp add: deleteImage_body_def await_def settle_def createApiClient_ok)

lemma deleteImage_sync_value:
  "fst (deleteImage_sync P srv img log) = Inr r \<Longrightarrow>
   r = \<lparr>delete_success = True, delete_error = None\<rparr>"
  by (auto simp: deleteImage_sync_def await_def settle_def resolve_def
      split: sum.splits option.splits prod.splits)

lemma deleteImage_body_value:
  "fst (deleteImage_body P srv img log) = Inr r \<Longrightarrow>
   r = \<lparr>delete_success = True, delete_error = None\<rparr>"
  by (auto simp: deleteImage_body_def await_def settle_def
      split: sum.splits option.splits prod.splits dest: deleteImage_sync_value[of P srv img])

lemma uploadImage_body_value:
  "fst (uploadImage_body P srv file descr log) = Inr r \<Longrightarrow>
   upload_success r \<and> upload_error r = None \<and> upload_url r \<noteq> None"
  by (auto simp: uploadImage_body_def await_def settle_def resolve_def Let_def
      split: sum.splits option.splits prod.splits)

text \<open>A complete upload, step by step.\<close>

lemma uploadImage_run:
  assumes cfg: "getConfig P = Inr cfg"
    and fname: "fname = generateFilename (Date_now P) (name file)"
    and read: "fileToBase64 file log = (Inr base64Content, log)"
    and blob: "on_put srv log
                 (Put (token cfg) (repo cfg) (''images/'' @ fname)
                    \<lparr>put_message = ''Upload image: '' @ fname, put_content = base64Content,
                     put_branch = branch cfg, put_sha = None\<rparr>) = Inr blob_sha"
    and imageUrl: "getGitHubUrl P fname = Inr imageUrl"
    and sync: "uploadImage_sync P srv
                 (newImage fname descr imageUrl (Date_toISOString P) blob_sha)
                 (log @ [Put (token cfg) (repo cfg) (''images/'' @ fname)
                    \<lparr>put_message = ''Upload image: '' @ fname, put_content = base64Content,
                     put_branch = branch cfg, put_sha = None\<rparr>]) = (Inr x, log')"
  shows "uploadImage P srv file descr log =
           (Inr \<lparr>upload_success = True, upload_url = Some imageUrl, upload_error = None\<rparr>, log')"
  using read blob sync
  by (simp add: uploadImage_def uploadImage_body_def try_catch_def await_def settle_def cfg
      createApiClient_ok[OF cfg] Let_def fname[symmetric] api_put_def imageUrl resolve_def)

lemma uploadImage_sync_run:
  assumes cfg: "getConfig P = Inr cfg"
    and fetch: "on_get srv log (catalogGet cfg) = Inr mf"
    and mutate: "unshiftImage (uploadImage_decode P (Some mf)) (imageJson img) = Inr M"
    and encode: "btoa P (JSON_stringify P M) = Inr b"
    and accepted: "on_put srv (log @ [catalogGet cfg])
          (catalogPut cfg \<lparr>put_message = ''Add image: '' @ filename img, put_content = Some b,
                           put_branch = branch cfg, put_sha = truthy (Some (file_sha mf))\<rparr>)
          = Inr new_sha"
  shows "uploadImage_sync P srv img log =
           (Inr new_sha,
            log @ [catalogGet cfg,
                   catalogPut cfg \<lparr>put_message = ''Add image: '' @ filename img,
                     put_content = Some b, put_branch = branch cfg,
                     put_sha = truthy (Some (file_sha mf))\<rparr>])"
  using fetch mutate encode accepted
  by (simp add: uploadImage_sync_def fetchFile_config[OF cfg] createOrUpdateFile_config[OF cfg]
      await_def settle_def catalogGet_def catalogPut_def)

section \<open>The sample repository at work\<close>

lemma browser_config: "getConfig browser = Inr browserConfig"
  by (simp add: getConfig_def browser_def browserConfig_def)

lemma on_get_storeServer:
  "on_get (storeServer st) log req = store_get (foldl store_apply st log) req"
  by (simp add: storeServer_def)

lemma on_put_storeServer:
  "on_put (storeServer st) log req = store_put (foldl store_apply st log) req"
  by (simp add: storeServer_def)

lemma store_apply_Get: "store_apply st (Get a r p b) = st"
  by (simp add: store_apply_def)

lemma sample_texts_differ:
  "''not json'' \<noteq> sampleText" "''not json'' \<noteq> duplicateText" "sampleText \<noteq> duplicateText"
  by (simp_all add: sampleText_def duplicateText_def joinLines_def)

lemma sample_codes_differ:
  "''bm90IGpzb24='' \<noteq> sampleBase64" "''bm90IGpzb24='' \<noteq> duplicateBase64"
  "sampleBase64 \<noteq> duplicateBase64"
  by (simp_all add: sampleBase64_def duplicateBase64_def)

lemma sample_catalogs_differ: "metadataJson duplicateCatalog \<noteq> metadataJson sampleCatalog"
  by (simp add: metadataJson_def duplicateCatalog_def sampleCatalog_def)

lemma browser_atob:
  "atob browser sampleBase64 = Inr sampleText"
  "atob browser ''bm90IGpzb24='' = Inr ''not json''"
  by (simp_all add: browser_def sample_codes_differ)

lemma browser_parse:
  "JSON_parse browser sampleText = Inr (metadataJson sampleCatalog)"
  "JSON_parse browser ''not json'' = Inl (Error ''Unexpected token'')"
  by (simp_all add: browser_def sample_texts_differ)

lemma browser_encode:
  "btoa browser (JSON_stringify browser (metadataJson sampleCatalog)) = Inr sampleBase64"
  "btoa browser (JSON_stringify browser (metadataJson duplicateCatalog)) = Inr duplicateBase64"
  using sample_texts_differ(3)[symmetric]
  by (simp_all add: browser_def sample_catalogs_differ)

lemma sample_blob_absent:
  "on_get (storeServer sampleStore) [] (blobGet browserConfig (filename otherImage))
     = Inl (statusError 404 ''Not Found'')"
  "on_get (storeServer emptyStore) [] (blobGet browserConfig (filename otherImage))
     = Inl (statusError 404 ''Not Found'')"
  by (simp_all add: on_get_storeServer store_get_def blobGet_def sampleStore_def emptyStore_def)

lemma not_found_404: "isNotFound (statusError 404 msg)"
  by (simp add: isNotFound_def statusError_def)

lemma sample_catalog_fetch:
  "on_get (storeServer sampleStore) [blobGet browserConfig (filename otherImage)]
     (catalogGet browserConfig) = Inr sampleFile"
  by (simp add: on_get_storeServer store_get_def blobGet_def catalogGet_def sampleStore_def
      store_apply_Get sampleFile_def)

lemma sample_catalog_write:
  "on_put (storeServer sampleStore)
     ([blobGet browserConfig (filename otherImage)] @ [catalogGet browserConfig])
     (catalogPut browserConfig
        \<lparr>put_message = ''Remove image: '' @ filename otherImage,
         put_content = Some sampleBase64, put_branch = branch browserConfig,
         put_sha = truthy (Some (file_sha sampleFile))\<rparr>)
     = Inr (revisionOf sampleBase64)"
  by (simp add: on_put_storeServer store_put_def blobGet_def catalogGet_def catalogPut_def
      sampleStore_def store_apply_Get sampleFile_def truthy_def)

section \<open>Decoding the catalog\<close>

text \<open>
  C3: when the content of the catalog file decodes to a text that \<^verbatim>\<open>JSON.parse\<close>
  rejects, each of the three decode sites yields the empty catalog
  \<^verbatim>\<open>{ images: [] }\<close> and none raises: the decode inside \<^verbatim>\<open>uploadImage\<close>, the decode
  inside \<^verbatim>\<open>deleteImage\<close>, and \<^verbatim>\<open>fetchMetadata\<close>, which is fulfilled with the empty
  catalog whenever its fetch delivered that file.
\<close>

theorem malformed_catalog_decodes_empty:
  assumes "atob P (content f) = Inr s" and "JSON_parse P s = Inl e"
  shows "uploadImage_decode P (Some f) = emptyMetadata \<and>
         deleteImage_decode P f = emptyMetadata \<and>
         (\<forall>log'. fetchFile P srv ''metadata.json'' log = (Inr (Some f), log') \<longrightarrow>
                 fetchMetadata P srv log = (Inr emptyMetadata, log'))"
  using assms
  by (simp add: uploadImage_decode_def deleteImage_decode_def fetchMetadata_def async_defs)

theorem malformed_catalog_decodes_empty_witness:
  "atob browser (content corruptFile) = Inr ''not json'' \<and>
   JSON_parse browser ''not json'' = Inl (Error ''Unexpected token'') \<and>
   uploadImage_decode browser (Some corruptFile) = emptyMetadata \<and>
   deleteImage_decode browser corruptFile = emptyMetadata \<and>
   fetchMetadata browser (storeServer corruptStore) [] =
     (Inr emptyMetadata, [catalogGet browserConfig])"
proof -
  have a: "atob browser (content corruptFile) = Inr ''not json''"
    by (simp add: corruptFile_def browser_atob)
  have p: "JSON_parse browser ''not json'' = Inl (Error ''Unexpected token'')"
    by (rule browser_parse)
  have "on_get (storeServer corruptStore) [] (catalogGet browserConfig) = Inr corruptFile"
    by (simp add: on_get_storeServer store_get_def catalogGet_def corruptStore_def
        corruptFile_def)
  then have f: "fetchFile browser (storeServer corruptStore) ''metadata.json'' [] =
                  (Inr (Some corruptFile), [catalogGet browserConfig])"
    by (simp add: fetchFile_config[OF browser_config] catalogGet_def)
  show ?thesis
    using malformed_catalog_decodes_empty[OF a p, of "storeServer corruptStore" "[]"] a p f
    by simp
qed

section \<open>\<^verbatim>\<open>fetchMetadata\<close> never rejects\<close>



section \<open>Deleting\<close>

text \<open>
  C4: let the configuration be complete, let the blob step of a delete go through
  (leaving the log \<open>log1\<close>), let the store answer the catalog fetch with a file that
  decodes to a catalog \<open>C\<close> in which the file name of the image does not occur, and let
  it accept the write. Then the removal is a no-op, not an error (it yields \<open>C\<close>
  itself), the document written back is the encoding of \<open>C\<close>, and \<^verbatim>\<open>deleteImage\<close>
  reports success.
\<close>

theorem delete_absent_filename:
  fixes C :: MetadataFile
  assumes cfg: "getConfig P = Inr cfg"
    and absent: "filename img \<notin> set (map filename (images C))"
    and blob: "deleteImage_blob P srv cfg (token cfg) img log = (Inr (), log1)"
    and fetch: "on_get srv log1 (catalogGet cfg) = Inr mf"
    and decode: "atob P (content mf) = Inr s" "JSON_parse P s = Inr (metadataJson C)"
    and encode: "btoa P (JSON_stringify P (metadataJson C)) = Inr b"
    and accepted: "on_put srv (log1 @ [catalogGet cfg])
          (catalogPut cfg \<lparr>put_message = ''Remove image: '' @ filename img, put_content = Some b,
                           put_branch = branch cfg, put_sha = truthy (Some (file_sha mf))\<rparr>)
          = Inr new_sha"
  shows "filterImages (deleteImage_decode P mf) (filename img) = Inr (metadataJson C) \<and>
         deleteImage P srv img log =
           (Inr \<lparr>delete_success = True, delete_error = None\<rparr>,
            log1 @ [catalogGet cfg,
                    catalogPut cfg \<lparr>put_message = ''Remove image: '' @ filename img,
                      put_content = Some b, put_branch = branch cfg,
                      put_sha = truthy (Some (file_sha mf))\<rparr>])"
proof -
  have dec: "deleteImage_decode P mf = metadataJson C"
    using decode by (simp add: deleteImage_decode_def)
  have filt: "filterImages (deleteImage_decode P mf) (filename img) = Inr (metadataJson C)"
    using absent by (simp add: dec filterImages_metadataJson filter_absent)
  have sync: "deleteImage_sync P srv img log1 =
           (Inr \<lparr>delete_success = True, delete_error = None\<rparr>,
            log1 @ [catalogGet cfg,
                    catalogPut cfg \<lparr>put_message = ''Remove image: '' @ filename img,
                      put_content = Some b, put_branch = branch cfg,
                      put_sha = truthy (Some (file_sha mf))\<rparr>])"
    using fetch encode accepted
    by (simp add: deleteImage_sync_def fetchFile_config[OF cfg] createOrUpdateFile_config[OF cfg]
        await_def settle_def resolve_def filt catalogGet_def catalogPut_def)
  have "deleteImage P srv img log =
           (Inr \<lparr>delete_success = True, delete_error = None\<rparr>,
            log1 @ [catalogGet cfg,
                    catalogPut cfg \<lparr>put_message = ''Remove image: '' @ filename img,
                      put_content = Some b, put_branch = branch cfg,
                      put_sha = truthy (Some (file_sha mf))\<rparr>])"
    by (simp add: deleteImage_def try_catch_def deleteImage_body_config[OF cfg] blob sync)
  with filt show ?thesis by simp
qed

theorem delete_absent_filename_witness:
  "filename otherImage \<notin> set (map filename (images sampleCatalog)) \<and>
   deleteImage browser (storeServer sampleStore) otherImage [] =
     (Inr \<lparr>delete_success = True, delete_error = None\<rparr>,
      [blobGet browserConfig ''1700000000999_dog.png'',
       catalogGet browserConfig,
       catalogPut browserConfig
         \<lparr>put_message = ''Remove image: 1700000000999_dog.png'',
          put_content = Some sampleBase64, put_branch = ''main'',
          put_sha = Some ''9a1f27c4''\<rparr>])"
proof -
  have absent: "filename otherImage \<notin> set (map filename (images sampleCatalog))"
    by (simp add: otherImage_def sampleCatalog_def sampleImage_def)
  have blob: "deleteImage_blob browser (storeServer sampleStore) browserConfig
                (token browserConfig) otherImage []
              = (Inr (), [blobGet browserConfig (filename otherImage)])"
    using deleteImage_blob_absent[OF browser_config sample_blob_absent(1) not_found_404]
    by simp
  have dec: "atob browser (content sampleFile) = Inr sampleText"
    by (simp add: sampleFile_def browser_atob)
  note run = delete_absent_filename[OF browser_config absent blob sample_catalog_fetch dec
      browser_parse(1) browser_encode(1) sample_catalog_write]
  have "filename otherImage = ''1700000000999_dog.png''"
    by (simp add: otherImage_def)
  moreover have "branch browserConfig = ''main''"
    by (simp add: browserConfig_def)
  moreover have "truthy (Some (file_sha sampleFile)) = Some ''9a1f27c4''"
    by (simp add: truthy_def sampleFile_def)
  ultimately show ?thesis using run absent by simp
qed

lemma delete_from_empty_store:
  "deleteImage browser (storeServer emptyStore) otherImage [] =
     (Inr \<lparr>delete_success = True, delete_error = None\<rparr>,
      [blobGet browserConfig (filename otherImage), catalogGet browserConfig])"
proof -
  have blob: "deleteImage_blob browser (storeServer emptyStore) browserConfig
                (token browserConfig) otherImage []
              = (Inr (), [blobGet browserConfig (filename otherImage)])"
    using deleteImage_blob_absent[OF browser_config sample_blob_absent(2) not_found_404]
    by simp
  have "on_get (storeServer emptyStore) [blobGet browserConfig (filename otherImage)]
          (catalogGet browserConfig) = Inl (statusError 404 ''Not Found'')"
    by (simp add: on_get_storeServer store_get_def blobGet_def catalogGet_def emptyStore_def
        store_apply_Get)
  then have sync: "deleteImage_sync browser (storeServer emptyStore) otherImage
                [blobGet browserConfig (filename otherImage)]
              = (Inr \<lparr>delete_success = True, delete_error = None\<rparr>,
                 [blobGet browserConfig (filename otherImage), catalogGet browserConfig])"
    using not_found_404
    by (simp add: deleteImage_sync_def fetchFile_config[OF browser_config] await_def
        resolve_def catalogGet_def)
  show ?thesis
    by (simp add: deleteImage_def try_catch_def deleteImage_body_config[OF browser_config]
        blob sync)
qed

text \<open>
  C6: with a complete configuration, when the lookup of the blob is answered with not
  found, the blob step of \<^verbatim>\<open>deleteImage\<close> consists of that lookup alone, no request
  that \<^verbatim>\<open>deleteImage\<close> issues is a DELETE, and \<^verbatim>\<open>deleteImage\<close> reports success as
  soon as the catalog synchronization that follows is fulfilled.
\<close>

theorem delete_skips_absent_blob:
  assumes cfg: "getConfig P = Inr cfg"
    and absent: "on_get srv log (blobGet cfg (filename img)) = Inl e" "isNotFound e"
  shows "deleteImage_blob P srv cfg (token cfg) img log =
           (Inr (), log @ [blobGet cfg (filename img)]) \<and>
         list_all (\<lambda>req. \<not> isDelete req) (drop (length log) (snd (deleteImage P srv img log))) \<and>
         (\<forall>r. fst (deleteImage_sync P srv img (log @ [blobGet cfg (filename img)])) = Inr r \<longrightarrow>
              fst (deleteImage P srv img log) =
                Inr \<lparr>delete_success = True, delete_error = None\<rparr>)"
proof -
  let ?l1 = "log @ [blobGet cfg (filename img)]"
  have blob: "deleteImage_blob P srv cfg (token cfg) img log = (Inr (), ?l1)"
    by (rule deleteImage_blob_absent[OF cfg absent])
  have body: "deleteImage_body P srv img log = deleteImage_sync P srv img ?l1"
    by (simp add: deleteImage_body_config[OF cfg] blob)
  obtain r l where rl: "deleteImage_sync P srv img ?l1 = (r, l)"
    by (cases "deleteImage_sync P srv img ?l1")
  have "snd (deleteImage P srv img log) = l"
    by (simp add: deleteImage_def try_catch_snd body rl)
  moreover have "l = ?l1 @ [catalogGet cfg] \<or> (\<exists>pl. l = ?l1 @ [catalogGet cfg, catalogPut cfg pl])"
    using delete_sync_trace[OF cfg rl] by auto
  ultimately have none:
    "list_all (\<lambda>req. \<not> isDelete req) (drop (length log) (snd (deleteImage P srv img log)))"
    by (auto simp: blobGet_def catalogGet_def catalogPut_def)
  have fin: "\<forall>r. fst (deleteImage_sync P srv img ?l1) = Inr r \<longrightarrow>
           fst (deleteImage P srv img log) = Inr \<lparr>delete_success = True, delete_error = None\<rparr>"
    using deleteImage_sync_value[of P srv img ?l1]
    by (auto simp: deleteImage_def try_catch_fst body)
  from blob none fin show ?thesis by simp
qed

theorem delete_skips_absent_blob_witness:
  "on_get (storeServer emptyStore) [] (blobGet browserConfig (filename otherImage)) =
     Inl (statusError 404 ''Not Found'') \<and>
   isNotFound (statusError 404 ''Not Found'') \<and>
   deleteImage_blob browser (storeServer emptyStore) browserConfig (token browserConfig)
     otherImage [] = (Inr (), [blobGet browserConfig (filename otherImage)]) \<and>
   list_all (\<lambda>req. \<not> isDelete req)
     (snd (deleteImage browser (storeServer emptyStore) otherImage []))"
  using delete_skips_absent_blob[OF browser_config sample_blob_absent(2) not_found_404]
    sample_blob_absent(2) not_found_404
  by simp

section \<open>Uniqueness of file names\<close>

lemma cat_filename: "generateFilename (Date_now browser) (name catFile) = ''1700000000000_cat.png''"
  by (simp add: browser_def catFile_def generateFilename_def sanitizedName_def inClass_def
      digitChar_def)

lemma cat_read: "fileToBase64 catFile log = (Inr (Some ''iVBORw==''), log)"
  by (simp add: fileToBase64_def catFile_def resolve_def)

lemma cat_url:
  "getGitHubUrl browser ''1700000000000_cat.png'' =
     Inr ''https://github.com/octo/pics/blob/main/images/1700000000000_cat.png?raw=true''"
  by (simp add: getGitHubUrl_ok[OF browser_config] browserConfig_def)

lemma cat_image:
  "newImage ''1700000000000_cat.png'' ''another cat''
     ''https://github.com/octo/pics/blob/main/images/1700000000000_cat.png?raw=true''
     (Date_toISOString browser) ''rev:iVBORw=='' = duplicateImage"
  by (simp add: newImage_def duplicateImage_def browser_def)

lemma cat_mutation:
  "unshiftImage (uploadImage_decode browser (Some sampleFile)) (imageJson duplicateImage) =
     Inr (metadataJson duplicateCatalog)"
proof -
  have "uploadImage_decode browser (Some sampleFile) = metadataJson sampleCatalog"
    by (simp add: uploadImage_decode_def sampleFile_def browser_atob browser_parse)
  then show ?thesis
    by (simp add: unshiftImage_metadataJson duplicateCatalog_def sampleCatalog_def)
qed

lemma cat_store:
  "store_apply sampleStore catBlobPut =
     [(''metadata.json'', (sampleBase64, ''9a1f27c4'')),
      (''images/1700000000000_cat.png'', (''iVBORw=='', ''rev:iVBORw==''))]"
  by (simp add: catBlobPut_def store_apply_def store_put_def sampleStore_def revisionOf_def)

lemma cat_upload:
  "uploadImage browser (storeServer sampleStore) catFile ''another cat'' [] =
     (Inr \<lparr>upload_success = True,
          upload_url =
            Some ''https://github.com/octo/pics/blob/main/images/1700000000000_cat.png?raw=true'',
          upload_error = None\<rparr>,
      [catBlobPut, catalogGet browserConfig,
       catalogPut browserConfig
         \<lparr>put_message = ''Add image: 1700000000000_cat.png'',
          put_content = Some duplicateBase64, put_branch = ''main'',
          put_sha = Some ''9a1f27c4''\<rparr>])"
proof -
  let ?srv = "storeServer sampleStore"
  have blob_req: "Put (token browserConfig) (repo browserConfig)
                    (''images/'' @ ''1700000000000_cat.png'')
                    \<lparr>put_message = ''Upload image: '' @ ''1700000000000_cat.png'',
                     put_content = Some ''iVBORw=='', put_branch = branch browserConfig,
                     put_sha = None\<rparr> = catBlobPut"
    by (simp add: catBlobPut_def browserConfig_def)
  have blob: "on_put ?srv [] catBlobPut = Inr ''rev:iVBORw==''"
    by (simp add: on_put_storeServer store_put_def catBlobPut_def sampleStore_def revisionOf_def)
  have fetch: "on_get ?srv ([] @ [catBlobPut]) (catalogGet browserConfig) = Inr sampleFile"
    by (simp add: on_get_storeServer cat_store store_get_def catalogGet_def sampleFile_def)
  have accepted: "on_put ?srv (([] @ [catBlobPut]) @ [catalogGet browserConfig])
          (catalogPut browserConfig
             \<lparr>put_message = ''Add image: '' @ filename duplicateImage,
              put_content = Some duplicateBase64, put_branch = branch browserConfig,
              put_sha = truthy (Some (file_sha sampleFile))\<rparr>)
          = Inr (revisionOf duplicateBase64)"
    by (simp add: on_put_storeServer cat_store store_apply_Get catalogGet_def store_put_def
        catalogPut_def sampleFile_def truthy_def)
  note sync = uploadImage_sync_run[OF browser_config fetch cat_mutation browser_encode(2) accepted]
  have sync': "uploadImage_sync browser ?srv
                 (newImage ''1700000000000_cat.png'' ''another cat''
                    ''https://github.com/octo/pics/blob/main/images/1700000000000_cat.png?raw=true''
                    (Date_toISOString browser) ''rev:iVBORw=='')
                 ([] @ [Put (token browserConfig) (repo browserConfig)
                    (''images/'' @ ''1700000000000_cat.png'')
                    \<lparr>put_message = ''Upload image: '' @ ''1700000000000_cat.png'',
                     put_content = Some ''iVBORw=='', put_branch = branch browserConfig,
                     put_sha = None\<rparr>]) =
               (Inr (revisionOf duplicateBase64),
                [catBlobPut, catalogGet browserConfig,
                 catalogPut browserConfig
                   \<lparr>put_message = ''Add image: 1700000000000_cat.png'',
                    put_content = Some duplicateBase64, put_branch = ''main'',
                    put_sha = Some ''9a1f27c4''\<rparr>])"
    unfolding cat_image blob_req using sync
    by (simp add: duplicateImage_def browserConfig_def sampleFile_def truthy_def)
  show ?thesis
    by (rule uploadImage_run[OF browser_config cat_filename[symmetric] cat_read _ cat_url sync'])
       (simp only: blob_req blob)
qed

text \<open>
  C5, as stated, fails for uploads: \<^verbatim>\<open>uploadImage\<close> never compares the generated
  file name with the catalog. The sample repository holds the catalog entry of
  \<^verbatim>\<open>1700000000000_cat.png\<close> but not its blob. Uploading \<^verbatim>\<open>cat.png\<close> while the clock
  reads 1700000000000 goes through and writes back a catalog whose two entries share
  that file name.
\<close>

theorem upload_duplicates_filename_counterexample:
  "distinct (map filename (images sampleCatalog)) \<and>
   uploadImage browser (storeServer sampleStore) catFile ''another cat'' [] =
     (Inr \<lparr>upload_success = True,
          upload_url =
            Some ''https://github.com/octo/pics/blob/main/images/1700000000000_cat.png?raw=true'',
          upload_error = None\<rparr>,
      [catBlobPut, catalogGet browserConfig,
       catalogPut browserConfig
         \<lparr>put_message = ''Add image: 1700000000000_cat.png'',
          put_content = Some duplicateBase64, put_branch = ''main'',
          put_sha = Some ''9a1f27c4''\<rparr>]) \<and>
   unshiftImage (uploadImage_decode browser (Some sampleFile)) (imageJson duplicateImage) =
     Inr (metadataJson duplicateCatalog) \<and>
   btoa browser (JSON_stringify browser (metadataJson duplicateCatalog)) = Inr duplicateBase64 \<and>
   \<not> distinct (map filename (images duplicateCatalog))"
proof -
  have "distinct (map filename (images sampleCatalog))"
    by (simp add: sampleCatalog_def)
  moreover have "\<not> distinct (map filename (images duplicateCatalog))"
    by (simp add: duplicateCatalog_def duplicateImage_def sampleImage_def)
  ultimately show ?thesis
    using cat_upload cat_mutation browser_encode(2) by simp
qed

text \<open>
  C5, amended: on a catalog whose entries have pairwise distinct file names, the
  mutation of a delete yields a catalog with pairwise distinct file names, for every
  file name; the mutation of an upload yields the catalog with the new entry in front,
  whose file names are pairwise distinct exactly when the generated file name does not
  occur in the catalog already.
\<close>

theorem filename_uniqueness:
  fixes C :: MetadataFile
  assumes "distinct (map filename (images C))"
  shows "filterImages (metadataJson C) f =
           Inr (metadataJson (C\<lparr>images := filter (\<lambda>i. filename i \<noteq> f) (images C)\<rparr>)) \<and>
         distinct (map filename (filter (\<lambda>i. filename i \<noteq> f) (images C))) \<and>
         unshiftImage (metadataJson C)
             (imageJson (newImage fname descr imageUrl ts blob_sha)) =
           Inr (metadataJson
                  (C\<lparr>images := newImage fname descr imageUrl ts blob_sha # images C\<rparr>)) \<and>
         (distinct (map filename (newImage fname descr imageUrl ts blob_sha # images C)) \<longleftrightarrow>
            fname \<notin> set (map filename (images C)))"
  using assms
  by (simp add: filterImages_metadataJson unshiftImage_metadataJson distinct_map_filter
      newImage_def)

theorem filename_uniqueness_witness:
  "distinct (map filename (images sampleCatalog)) \<and>
   filterImages (metadataJson sampleCatalog) ''1700000000000_cat.png'' =
     Inr (metadataJson \<lparr>images = []\<rparr>) \<and>
   distinct (map filename
     (newImage ''1700000000999_dog.png'' ''a dog'' [] [] [] # images sampleCatalog))"
proof -
  have d: "distinct (map filename (images sampleCatalog))"
    by (simp add: sampleCatalog_def)
  show ?thesis
    using filename_uniqueness[OF d, of "''1700000000000_cat.png''" "''1700000000999_dog.png''"
        "''a dog''" "[]" "[]" "[]"] d
    by (simp add: sampleCatalog_def sampleImage_def)
qed

section \<open>The orchestrators, request by request\<close>

lemma fileToBase64_log: "snd (fileToBase64 file log) = log"
  by (simp add: fileToBase64_def reject_def resolve_def split: sum.splits list.splits)

lemma fileToBase64_rejects:
  "fst (fileToBase64 file log) = Inl e \<longleftrightarrow> dataURL file = Inl e"
  by (auto simp: fileToBase64_def reject_def resolve_def split: sum.splits list.splits)

lemma uploadImage_no_config:
  "getConfig P = Inl e \<Longrightarrow> uploadImage P srv file descr log = (Inr (uploadFailure e), log)"
  by (simp add: uploadImage_def uploadImage_body_def try_catch_def await_def settle_def
      resolve_def uploadFailure_def)

lemma deleteImage_no_config:
  "getConfig P = Inl e \<Longrightarrow> deleteImage P srv img log = (Inr (deleteFailure e), log)"
  by (simp add: deleteImage_def deleteImage_body_def try_catch_def await_def settle_def
      resolve_def deleteFailure_def)

lemma uploadImage_steps:
  assumes cfg: "getConfig P = Inr cfg"
  shows "uploadImage P srv file descr log =
     (case fst (fileToBase64 file log) of
        Inl e \<Rightarrow> (Inr (uploadFailure e), log)
      | Inr b \<Rightarrow>
          (case on_put srv log (blobPut cfg (generateFilename (Date_now P) (name file)) b) of
             Inl e \<Rightarrow>
               (Inr (uploadFailure e),
                log @ [blobPut cfg (generateFilename (Date_now P) (name file)) b])
           | Inr s \<Rightarrow>
               (case uploadImage_sync P srv
                       (newImage (generateFilename (Date_now P) (name file)) descr
                          (githubUrl cfg (generateFilename (Date_now P) (name file)))
                          (Date_toISOString P) s)
                       (log @ [blobPut cfg (generateFilename (Date_now P) (name file)) b]) of
                  (Inl e, l) \<Rightarrow> (Inr (uploadFailure e), l)
                | (Inr x, l) \<Rightarrow>
                    (Inr (uploadSuccess
                            (githubUrl cfg (generateFilename (Date_now P) (name file)))), l))))"
proof -
  obtain r where r: "fileToBase64 file log = (r, log)"
    using fileToBase64_log[of "file" log] by (cases "fileToBase64 file log") simp
  show ?thesis
    by (simp add: uploadImage_def uploadImage_body_def try_catch_def await_def settle_def cfg
        createApiClient_ok[OF cfg] getGitHubUrl_ok[OF cfg] Let_def api_put_def resolve_def r
        blobPut_def githubUrl_def uploadFailure_def uploadSuccess_def
        split: sum.splits prod.splits)
qed

lemma deleteImage_blob_steps:
  assumes cfg: "getConfig P = Inr cfg"
  shows "deleteImage_blob P srv cfg (token cfg) img log =
     (case on_get srv log (blobGet cfg (filename img)) of
        Inl e \<Rightarrow>
          (if isNotFound e then Inr () else Inl e, log @ [blobGet cfg (filename img)])
      | Inr f \<Rightarrow>
          (on_delete srv (log @ [blobGet cfg (filename img)])
             (blobDelete cfg (filename img) (file_sha f)),
           log @ [blobGet cfg (filename img), blobDelete cfg (filename img) (file_sha f)]))"
  by (simp add: deleteImage_blob_def Let_def await_def resolve_def fetchFile_config[OF cfg]
      blobGet_def blobDelete_def api_delete_def split: sum.splits)

lemma deleteImage_steps:
  assumes cfg: "getConfig P = Inr cfg"
  shows "deleteImage P srv img log =
     (case deleteImage_blob P srv cfg (token cfg) img log of
        (Inl e, l) \<Rightarrow> (Inr (deleteFailure e), l)
      | (Inr u, l) \<Rightarrow>
          (case deleteImage_sync P srv img l of
             (Inl e, l') \<Rightarrow> (Inr (deleteFailure e), l')
           | (Inr r, l') \<Rightarrow> (Inr r, l')))"
  by (simp add: deleteImage_def try_catch_def deleteImage_body_config[OF cfg] resolve_def
      deleteFailure_def split: prod.splits sum.splits)

lemma uploadImage_trace:
  assumes cfg: "getConfig P = Inr cfg"
  shows "(\<exists>e. dataURL file = Inl e \<and>
              uploadImage P srv file descr log = (Inr (uploadFailure e), log)) \<or>
         (\<exists>b. fst (fileToBase64 file log) = Inr b \<and>
            ((\<exists>e. on_put srv log (blobPut cfg (generateFilename (Date_now P) (name file)) b) = Inl e \<and>
                  uploadImage P srv file descr log =
                    (Inr (uploadFailure e),
                     log @ [blobPut cfg (generateFilename (Date_now P) (name file)) b])) \<or>
             (\<exists>s. on_put srv log (blobPut cfg (generateFilename (Date_now P) (name file)) b) = Inr s \<and>
                ((\<exists>e. uploadImage P srv file descr log =
                        (Inr (uploadFailure e),
                         log @ [blobPut cfg (generateFilename (Date_now P) (name file)) b,
                                catalogGet cfg])) \<or>
                 (\<exists>pl. snd (uploadImage P srv file descr log) =
                         log @ [blobPut cfg (generateFilename (Date_now P) (name file)) b,
                                catalogGet cfg, catalogPut cfg pl] \<and>
                       put_sha pl =
                         fetchedToken
                           (on_get srv
                              (log @ [blobPut cfg (generateFilename (Date_now P) (name file)) b])
                              (catalogGet cfg)) \<and>
                       fst (uploadImage P srv file descr log) =
                         Inr (case on_put srv
                                     (log @ [blobPut cfg (generateFilename (Date_now P) (name file)) b,
                                             catalogGet cfg])
                                     (catalogPut cfg pl) of
                                Inl e \<Rightarrow> uploadFailure e
                              | Inr x \<Rightarrow>
                                  uploadSuccess
                                    (githubUrl cfg (generateFilename (Date_now P) (name file)))))))))"
proof (cases "fst (fileToBase64 file log)")
  case (Inl e)
  then show ?thesis
    using fileToBase64_rejects[of "file" log e] by (simp add: uploadImage_steps[OF cfg])
next
  case b: (Inr b)
  let ?B = "blobPut cfg (generateFilename (Date_now P) (name file)) b"
  show ?thesis
  proof (cases "on_put srv log ?B")
    case (Inl e)
    then show ?thesis using b by (simp add: uploadImage_steps[OF cfg])
  next
    case s: (Inr s)
    let ?img = "newImage (generateFilename (Date_now P) (name file)) descr
                  (githubUrl cfg (generateFilename (Date_now P) (name file)))
                  (Date_toISOString P) s"
    obtain r l where rl: "uploadImage_sync P srv ?img (log @ [?B]) = (r, l)"
      by (cases "uploadImage_sync P srv ?img (log @ [?B])")
    have U: "uploadImage P srv file descr log =
               (case r of Inl e \<Rightarrow> (Inr (uploadFailure e), l)
                | Inr x \<Rightarrow>
                    (Inr (uploadSuccess
                            (githubUrl cfg (generateFilename (Date_now P) (name file)))), l))"
      using b s rl by (simp add: uploadImage_steps[OF cfg] split: sum.splits)
    from upload_sync_trace[OF cfg rl]
    consider (fetch_only) "l = (log @ [?B]) @ [catalogGet cfg]" "isl r"
      | (written) pl where "l = (log @ [?B]) @ [catalogGet cfg, catalogPut cfg pl]"
          "put_sha pl = fetchedToken (on_get srv (log @ [?B]) (catalogGet cfg))"
          "r = on_put srv ((log @ [?B]) @ [catalogGet cfg]) (catalogPut cfg pl)"
      by blast
    then show ?thesis
    proof cases
      case fetch_only
      then obtain e where "r = Inl e" by (cases r) auto
      then show ?thesis using b s U fetch_only by auto
    next
      case written
      have "fst (uploadImage P srv file descr log) =
              Inr (case r of Inl e \<Rightarrow> uploadFailure e
                   | Inr x \<Rightarrow>
                       uploadSuccess (githubUrl cfg (generateFilename (Date_now P) (name file))))"
        by (simp add: U split: sum.splits)
      moreover have "snd (uploadImage P srv file descr log) = l"
        by (simp add: U split: sum.splits)
      ultimately show ?thesis using b s written by auto
    qed
  qed
qed

lemma deleteImage_trace:
  assumes cfg: "getConfig P = Inr cfg"
  shows "(\<exists>e. on_get srv log (blobGet cfg (filename img)) = Inl e \<and> \<not> isNotFound e \<and>
              deleteImage P srv img log =
                (Inr (deleteFailure e), log @ [blobGet cfg (filename img)])) \<or>
         (\<exists>f e. on_get srv log (blobGet cfg (filename img)) = Inr f \<and>
              on_delete srv (log @ [blobGet cfg (filename img)])
                (blobDelete cfg (filename img) (file_sha f)) = Inl e \<and>
              deleteImage P srv img log =
                (Inr (deleteFailure e),
                 log @ [blobGet cfg (filename img),
                        blobDelete cfg (filename img) (file_sha f)])) \<or>
         (\<exists>l1. ((\<exists>e. on_get srv log (blobGet cfg (filename img)) = Inl e \<and> isNotFound e \<and>
                      l1 = log @ [blobGet cfg (filename img)]) \<or>
                 (\<exists>f. on_get srv log (blobGet cfg (filename img)) = Inr f \<and>
                      on_delete srv (log @ [blobGet cfg (filename img)])
                        (blobDelete cfg (filename img) (file_sha f)) = Inr () \<and>
                      l1 = log @ [blobGet cfg (filename img),
                                  blobDelete cfg (filename img) (file_sha f)])) \<and>
            ((\<exists>e. deleteImage P srv img log = (Inr (deleteFailure e), l1 @ [catalogGet cfg])) \<or>
             (\<exists>e. on_get srv l1 (catalogGet cfg) = Inl e \<and> isNotFound e \<and>
                  deleteImage P srv img log = (Inr deleteSuccess, l1 @ [catalogGet cfg])) \<or>
             (\<exists>pl. snd (deleteImage P srv img log) =
                     l1 @ [catalogGet cfg, catalogPut cfg pl] \<and>
                   put_sha pl = fetchedToken (on_get srv l1 (catalogGet cfg)) \<and>
                   fst (deleteImage P srv img log) =
                     Inr (case on_put srv (l1 @ [catalogGet cfg]) (catalogPut cfg pl) of
                            Inl e \<Rightarrow> deleteFailure e
                          | Inr x \<Rightarrow> deleteSuccess))))"
proof -
  let ?G = "blobGet cfg (filename img)"
  obtain rb l1 where blob: "deleteImage_blob P srv cfg (token cfg) img log = (rb, l1)"
    by (cases "deleteImage_blob P srv cfg (token cfg) img log")
  show ?thesis
  proof (cases rb)
    case (Inl e)
    then show ?thesis
      using blob deleteImage_blob_steps[OF cfg, of srv img log]
      by (auto simp: deleteImage_steps[OF cfg] split: sum.splits if_splits)
  next
    case (Inr u)
    have l1: "(\<exists>e. on_get srv log ?G = Inl e \<and> isNotFound e \<and> l1 = log @ [?G]) \<or>
              (\<exists>f. on_get srv log ?G = Inr f \<and>
                   on_delete srv (log @ [?G]) (blobDelete cfg (filename img) (file_sha f)) = Inr () \<and>
                   l1 = log @ [?G, blobDelete cfg (filename img) (file_sha f)])"
      using blob Inr deleteImage_blob_steps[OF cfg, of srv img log]
      by (auto split: sum.splits if_splits)
    obtain r l where rl: "deleteImage_sync P srv img l1 = (r, l)"
      by (cases "deleteImage_sync P srv img l1")
    have D: "deleteImage P srv img log =
               (case r of Inl e \<Rightarrow> (Inr (deleteFailure e), l) | Inr x \<Rightarrow> (Inr x, l))"
      using blob Inr rl by (simp add: deleteImage_steps[OF cfg] split: sum.splits)
    from delete_sync_trace[OF cfg rl]
    consider (rejected) e where "l = l1 @ [catalogGet cfg]" "r = Inl e"
      | (absent) e where "l = l1 @ [catalogGet cfg]" "on_get srv l1 (catalogGet cfg) = Inl e"
          "isNotFound e" "r = Inr \<lparr>delete_success = True, delete_error = None\<rparr>"
      | (written) pl where "l = l1 @ [catalogGet cfg, catalogPut cfg pl]"
          "put_sha pl = fetchedToken (on_get srv l1 (catalogGet cfg))"
          "r = map_sum id (\<lambda>_. \<lparr>delete_success = True, delete_error = None\<rparr>)
                 (on_put srv (l1 @ [catalogGet cfg]) (catalogPut cfg pl))"
      by (cases r) auto
    then have "(\<exists>e. deleteImage P srv img log = (Inr (deleteFailure e), l1 @ [catalogGet cfg])) \<or>
             (\<exists>e. on_get srv l1 (catalogGet cfg) = Inl e \<and> isNotFound e \<and>
                  deleteImage P srv img log = (Inr deleteSuccess, l1 @ [catalogGet cfg])) \<or>
             (\<exists>pl. snd (deleteImage P srv img log) =
                     l1 @ [catalogGet cfg, catalogPut cfg pl] \<and>
                   put_sha pl = fetchedToken (on_get srv l1 (catalogGet cfg)) \<and>
                   fst (deleteImage P srv img log) =
                     Inr (case on_put srv (l1 @ [catalogGet cfg]) (catalogPut cfg pl) of
                            Inl e \<Rightarrow> deleteFailure e
                          | Inr x \<Rightarrow> deleteSuccess))"
    proof cases
      case rejected
      then show ?thesis by (auto simp: D)
    next
      case absent
      then show ?thesis by (auto simp: D deleteSuccess_def)
    next
      case written
      then have "snd (deleteImage P srv img log) = l1 @ [catalogGet cfg, catalogPut cfg pl]"
        and "fst (deleteImage P srv img log) =
               Inr (case on_put srv (l1 @ [catalogGet cfg]) (catalogPut cfg pl) of
                      Inl e \<Rightarrow> deleteFailure e | Inr x \<Rightarrow> deleteSuccess)"
        by (simp_all add: D deleteSuccess_def split: sum.splits)
      with written(2) show ?thesis by blast
    qed
    with l1 show ?thesis by blast
  qed
qed

lemma snoc_eq_snoc2: "xs @ [a] = ys @ [c, d] \<longleftrightarrow> xs = ys @ [c] \<and> a = d"
proof -
  have "ys @ [c, d] = (ys @ [c]) @ [d]" by simp
  then show ?thesis by (simp only: append1_eq_conv)
qed

lemma snoc2_eq_snoc2: "xs @ [a, b] = ys @ [c, d] \<longleftrightarrow> xs = ys \<and> a = c \<and> b = d"
  by (simp add: append_eq_append_conv)

lemma snoc3_eq_snoc2: "xs @ [a, b, c] = ys @ [d, e] \<longleftrightarrow> xs @ [a] = ys \<and> b = d \<and> c = e"
proof -
  have "xs @ [a, b, c] = (xs @ [a]) @ [b, c]" by simp
  then show ?thesis by (simp only: snoc2_eq_snoc2)
qed

lemma upload_sync_fetch_rejected:
  assumes "getConfig P = Inr cfg" "on_get srv l (catalogGet cfg) = Inl e" "\<not> isNotFound e"
  shows "uploadImage_sync P srv i l = (Inl e, l @ [catalogGet cfg])"
  using assms
  by (simp add: uploadImage_sync_def fetchFile_config await_def catalogGet_def)

lemma delete_sync_fetch_rejected:
  assumes "getConfig P = Inr cfg" "on_get srv l (catalogGet cfg) = Inl e" "\<not> isNotFound e"
  shows "deleteImage_sync P srv i l = (Inl e, l @ [catalogGet cfg])"
  using assms
  by (simp add: deleteImage_sync_def fetchFile_config await_def catalogGet_def)

lemma uploadImage_write_rejected:
  assumes cfg: "getConfig P = Inr cfg"
    and l: "snd (uploadImage P srv file descr log) =
              log @ [blobPut cfg (generateFilename (Date_now P) (name file)) b, catalogGet cfg,
                     catalogPut cfg pl]"
    and w: "on_put srv
              (log @ [blobPut cfg (generateFilename (Date_now P) (name file)) b, catalogGet cfg])
              (catalogPut cfg pl) = Inl e"
  shows "fst (uploadImage P srv file descr log) = Inr (uploadFailure e)"
  using uploadImage_trace[OF cfg, of "file" srv descr log] l w
  by (auto simp: blobPut_def catalogGet_def catalogPut_def)

lemma deleteImage_write_rejected:
  assumes cfg: "getConfig P = Inr cfg"
    and l: "snd (deleteImage P srv img log) = l1 @ [catalogGet cfg, catalogPut cfg pl]"
    and w: "on_put srv (l1 @ [catalogGet cfg]) (catalogPut cfg pl) = Inl e"
  shows "fst (deleteImage P srv img log) = Inr (deleteFailure e)"
  using deleteImage_trace[OF cfg, of srv log img] l w
  by (auto simp: blobGet_def blobDelete_def catalogGet_def catalogPut_def
      snoc_eq_snoc2 snoc2_eq_snoc2 snoc3_eq_snoc2)

section \<open>The orchestrators never reject\<close>

lemma getErrorMessage_cases:
  "getErrorMessage (Error m) = m"
  "getErrorMessage Thrown = ''An unexpected error occurred.''"
  "getErrorMessage (AxiosError None m) = m"
  "getErrorMessage (AxiosError (Some (401, d)) m) =
     ''Authentication failed. Please check your GitHub token.''"
  "getErrorMessage (AxiosError (Some (403, d)) m) =
     ''Access denied. Your token may lack the required permissions.''"
  "getErrorMessage (AxiosError (Some (404, d)) m) =
     ''Repository not found. Please check the repository name.''"
  "getErrorMessage (AxiosError (Some (422, d)) m) = ''File already exists or invalid request.''"
  "status \<notin> {401, 403, 404, 422} \<Longrightarrow>
   getErrorMessage (AxiosError (Some (status, d)) m) =
     (case d of None \<Rightarrow> m | Some t \<Rightarrow> if t = [] then m else t)"
  by (simp_all add: getErrorMessage_def split: option.splits)

text \<open>
  C7: for every platform, store, input and log, \<^verbatim>\<open>uploadImage\<close> and
  \<^verbatim>\<open>deleteImage\<close> are fulfilled with a result value and never rejected. The result is
  either the success value of the body, or, when any step of the body raised an error
  \<open>e\<close>, the failure value whose message is \<^verbatim>\<open>getErrorMessage(e)\<close>.
  Step by step: a missing configuration, a file that cannot be read, a rejected write
  of the blob, a rejected fetch of the catalog, a rejected write of the catalog, a
  rejected lookup of the blob and a rejected delete of the blob each end the
  orchestrator with the failure value of exactly that error, after exactly the requests
  issued so far.
  The message is derived from the error as lines 231 to 252 say: a fixed text for the
  statuses 401, 403, 404 and 422 of an axios error; for any other status the message of
  the response body when it is not empty, else the message of the error; the message of
  any other \<^verbatim>\<open>Error\<close>; a fixed text for a thrown value that is no \<^verbatim>\<open>Error\<close>.
\<close>

theorem orchestrators_never_reject:
  "(\<exists>r. fst (uploadImage P srv file descr log) = Inr r \<and>
        ((fst (uploadImage_body P srv file descr log) = Inr r \<and>
          upload_success r \<and> upload_error r = None) \<or>
         (\<exists>e. fst (uploadImage_body P srv file descr log) = Inl e \<and>
              r = \<lparr>upload_success = False, upload_url = None,
                   upload_error = Some (getErrorMessage e)\<rparr>))) \<and>
   (\<exists>r. fst (deleteImage P srv img log) = Inr r \<and>
        ((fst (deleteImage_body P srv img log) = Inr r \<and>
          r = \<lparr>delete_success = True, delete_error = None\<rparr>) \<or>
         (\<exists>e. fst (deleteImage_body P srv img log) = Inl e \<and>
              r = \<lparr>delete_success = False, delete_error = Some (getErrorMessage e)\<rparr>))) \<and>
   (\<forall>e. getConfig P = Inl e \<longrightarrow>
        uploadImage P srv file descr log = (Inr (uploadFailure e), log) \<and>
        deleteImage P srv img log = (Inr (deleteFailure e), log)) \<and>
   (\<forall>cfg. getConfig P = Inr cfg \<longrightarrow>
      (\<forall>e. dataURL file = Inl e \<longrightarrow>
           uploadImage P srv file descr log = (Inr (uploadFailure e), log)) \<and>
      (\<forall>b e. fst (fileToBase64 file log) = Inr b \<and>
             on_put srv log (blobPut cfg (generateFilename (Date_now P) (name file)) b) = Inl e \<longrightarrow>
           uploadImage P srv file descr log =
             (Inr (uploadFailure e),
              log @ [blobPut cfg (generateFilename (Date_now P) (name file)) b])) \<and>
      (\<forall>b s e. fst (fileToBase64 file log) = Inr b \<and>
             on_put srv log (blobPut cfg (generateFilename (Date_now P) (name file)) b) = Inr s \<and>
             on_get srv (log @ [blobPut cfg (generateFilename (Date_now P) (name file)) b])
               (catalogGet cfg) = Inl e \<and> \<not> isNotFound e \<longrightarrow>
           uploadImage P srv file descr log =
             (Inr (uploadFailure e),
              log @ [blobPut cfg (generateFilename (Date_now P) (name file)) b,
                     catalogGet cfg])) \<and>
      (\<forall>b pl e.
             snd (uploadImage P srv file descr log) =
               log @ [blobPut cfg (generateFilename (Date_now P) (name file)) b, catalogGet cfg,
                      catalogPut cfg pl] \<and>
             on_put srv
               (log @ [blobPut cfg (generateFilename (Date_now P) (name file)) b, catalogGet cfg])
               (catalogPut cfg pl) = Inl e \<longrightarrow>
           fst (uploadImage P srv file descr log) = Inr (uploadFailure e)) \<and>
      (\<forall>e. on_get srv log (blobGet cfg (filename img)) = Inl e \<and> \<not> isNotFound e \<longrightarrow>
           deleteImage P srv img log =
             (Inr (deleteFailure e), log @ [blobGet cfg (filename img)])) \<and>
      (\<forall>f e. on_get srv log (blobGet cfg (filename img)) = Inr f \<and>
             on_delete srv (log @ [blobGet cfg (filename img)])
               (blobDelete cfg (filename img) (file_sha f)) = Inl e \<longrightarrow>
           deleteImage P srv img log =
             (Inr (deleteFailure e),
              log @ [blobGet cfg (filename img),
                     blobDelete cfg (filename img) (file_sha f)])) \<and>
      (\<forall>l1 e. deleteImage_blob P srv cfg (token cfg) img log = (Inr (), l1) \<and>
             on_get srv l1 (catalogGet cfg) = Inl e \<and> \<not> isNotFound e \<longrightarrow>
           deleteImage P srv img log = (Inr (deleteFailure e), l1 @ [catalogGet cfg])) \<and>
      (\<forall>l1 pl e.
             snd (deleteImage P srv img log) = l1 @ [catalogGet cfg, catalogPut cfg pl] \<and>
             on_put srv (l1 @ [catalogGet cfg]) (catalogPut cfg pl) = Inl e \<longrightarrow>
           fst (deleteImage P srv img log) = Inr (deleteFailure e))) \<and>
   (\<forall>e. uploadFailure e =
          \<lparr>upload_success = False, upload_url = None,
           upload_error = Some (getErrorMessage e)\<rparr> \<and>
        deleteFailure e =
          \<lparr>delete_success = False, delete_error = Some (getErrorMessage e)\<rparr>) \<and>
   (\<forall>m d. getErrorMessage (Error m) = m \<and>
          getErrorMessage Thrown = ''An unexpected error occurred.'' \<and>
          getErrorMessage (AxiosError None m) = m \<and>
          getErrorMessage (AxiosError (Some (401, d)) m) =
            ''Authentication failed. Please check your GitHub token.'' \<and>
          getErrorMessage (AxiosError (Some (403, d)) m) =
            ''Access denied. Your token may lack the required permissions.'' \<and>
          getErrorMessage (AxiosError (Some (404, d)) m) =
            ''Repository not found. Please check the repository name.'' \<and>
          getErrorMessage (AxiosError (Some (422, d)) m) =
            ''File already exists or invalid request.'' \<and>
          (\<forall>status. status \<notin> {401, 403, 404, 422} \<longrightarrow>
             getErrorMessage (AxiosError (Some (status, d)) m) =
               (case d of None \<Rightarrow> m | Some t \<Rightarrow> if t = [] then m else t)))"
proof (intro conjI allI impI)
  show "\<exists>r. fst (uploadImage P srv file descr log) = Inr r \<and>
        ((fst (uploadImage_body P srv file descr log) = Inr r \<and>
          upload_success r \<and> upload_error r = None) \<or>
         (\<exists>e. fst (uploadImage_body P srv file descr log) = Inl e \<and>
              r = \<lparr>upload_success = False, upload_url = None,
                   upload_error = Some (getErrorMessage e)\<rparr>))"
  proof (cases "fst (uploadImage_body P srv file descr log)")
    case (Inl e)
    then show ?thesis by (simp add: uploadImage_def try_catch_fst)
  next
    case (Inr r)
    then show ?thesis
      using uploadImage_body_value[OF Inr] by (simp add: uploadImage_def try_catch_fst)
  qed
  show "\<exists>r. fst (deleteImage P srv img log) = Inr r \<and>
        ((fst (deleteImage_body P srv img log) = Inr r \<and>
          r = \<lparr>delete_success = True, delete_error = None\<rparr>) \<or>
         (\<exists>e. fst (deleteImage_body P srv img log) = Inl e \<and>
              r = \<lparr>delete_success = False, delete_error = Some (getErrorMessage e)\<rparr>))"
  proof (cases "fst (deleteImage_body P srv img log)")
    case (Inl e)
    then show ?thesis by (simp add: deleteImage_def try_catch_fst)
  next
    case (Inr r)
    then show ?thesis
      using deleteImage_body_value[OF Inr] by (simp add: deleteImage_def try_catch_fst)
  qed
next
  fix e assume "getConfig P = Inl e"
  then show "uploadImage P srv file descr log = (Inr (uploadFailure e), log)"
    and "deleteImage P srv img log = (Inr (deleteFailure e), log)"
    by (simp_all add: uploadImage_no_config deleteImage_no_config)
next
  fix cfg e assume cfg: "getConfig P = Inr cfg" and "dataURL file = Inl e"
  then show "uploadImage P srv file descr log = (Inr (uploadFailure e), log)"
    using fileToBase64_rejects[of "file" log e] by (simp add: uploadImage_steps[OF cfg])
next
  fix cfg b e
  assume cfg: "getConfig P = Inr cfg"
    and "fst (fileToBase64 file log) = Inr b \<and>
         on_put srv log (blobPut cfg (generateFilename (Date_now P) (name file)) b) = Inl e"
  then show "uploadImage P srv file descr log =
             (Inr (uploadFailure e),
              log @ [blobPut cfg (generateFilename (Date_now P) (name file)) b])"
    by (simp add: uploadImage_steps[OF cfg])
next
  fix cfg b s e
  assume cfg: "getConfig P = Inr cfg"
    and h: "fst (fileToBase64 file log) = Inr b \<and>
         on_put srv log (blobPut cfg (generateFilename (Date_now P) (name file)) b) = Inr s \<and>
         on_get srv (log @ [blobPut cfg (generateFilename (Date_now P) (name file)) b])
           (catalogGet cfg) = Inl e \<and> \<not> isNotFound e"
  then show "uploadImage P srv file descr log =
             (Inr (uploadFailure e),
              log @ [blobPut cfg (generateFilename (Date_now P) (name file)) b,
                     catalogGet cfg])"
    by (simp add: uploadImage_steps[OF cfg] upload_sync_fetch_rejected[OF cfg])
next
  fix cfg b pl e
  assume cfg: "getConfig P = Inr cfg"
    and h: "snd (uploadImage P srv file descr log) =
               log @ [blobPut cfg (generateFilename (Date_now P) (name file)) b, catalogGet cfg,
                      catalogPut cfg pl] \<and>
             on_put srv
               (log @ [blobPut cfg (generateFilename (Date_now P) (name file)) b, catalogGet cfg])
               (catalogPut cfg pl) = Inl e"
  then show "fst (uploadImage P srv file descr log) = Inr (uploadFailure e)"
    using uploadImage_write_rejected[OF cfg] by blast
next
  fix cfg e
  assume cfg: "getConfig P = Inr cfg"
    and "on_get srv log (blobGet cfg (filename img)) = Inl e \<and> \<not> isNotFound e"
  then show "deleteImage P srv img log =
             (Inr (deleteFailure e), log @ [blobGet cfg (filename img)])"
    by (simp add: deleteImage_steps[OF cfg] deleteImage_blob_steps[OF cfg])
next
  fix cfg f e
  assume cfg: "getConfig P = Inr cfg"
    and "on_get srv log (blobGet cfg (filename img)) = Inr f \<and>
         on_delete srv (log @ [blobGet cfg (filename img)])
           (blobDelete cfg (filename img) (file_sha f)) = Inl e"
  then show "deleteImage P srv img log =
             (Inr (deleteFailure e),
              log @ [blobGet cfg (filename img),
                     blobDelete cfg (filename img) (file_sha f)])"
    by (simp add: deleteImage_steps[OF cfg] deleteImage_blob_steps[OF cfg])
next
  fix cfg l1 e
  assume cfg: "getConfig P = Inr cfg"
    and "deleteImage_blob P srv cfg (token cfg) img log = (Inr (), l1) \<and>
         on_get srv l1 (catalogGet cfg) = Inl e \<and> \<not> isNotFound e"
  then show "deleteImage P srv img log = (Inr (deleteFailure e), l1 @ [catalogGet cfg])"
    by (simp add: deleteImage_steps[OF cfg] delete_sync_fetch_rejected[OF cfg])
next
  fix cfg l1 pl e
  assume cfg: "getConfig P = Inr cfg"
    and "snd (deleteImage P srv img log) = l1 @ [catalogGet cfg, catalogPut cfg pl] \<and>
         on_put srv (l1 @ [catalogGet cfg]) (catalogPut cfg pl) = Inl e"
  then show "fst (deleteImage P srv img log) = Inr (deleteFailure e)"
    using deleteImage_write_rejected[OF cfg] by blast
next
  fix e
  show "uploadFailure e =
          \<lparr>upload_success = False, upload_url = None,
           upload_error = Some (getErrorMessage e)\<rparr>"
    and "deleteFailure e =
          \<lparr>delete_success = False, delete_error = Some (getErrorMessage e)\<rparr>"
    by (simp_all add: uploadFailure_def deleteFailure_def)
next
  fix m d
  show "getErrorMessage (Error m) = m"
    and "getErrorMessage Thrown = ''An unexpected error occurred.''"
    and "getErrorMessage (AxiosError None m) = m"
    and "getErrorMessage (AxiosError (Some (401, d)) m) =
            ''Authentication failed. Please check your GitHub token.''"
    and "getErrorMessage (AxiosError (Some (403, d)) m) =
            ''Access denied. Your token may lack the required permissions.''"
    and "getErrorMessage (AxiosError (Some (404, d)) m) =
            ''Repository not found. Please check the repository name.''"
    and "getErrorMessage (AxiosError (Some (422, d)) m) =
            ''File already exists or invalid request.''"
    by (rule getErrorMessage_cases)+
  show "getErrorMessage (AxiosError (Some (status, d)) m) =
               (case d of None \<Rightarrow> m | Some t \<Rightarrow> if t = [] then m else t)"
    if "status \<notin> {401, 403, 404, 422}" for status
    using that by (rule getErrorMessage_cases)
qed

theorem orchestrators_never_reject_witness:
  "getConfig browser = Inr browserConfig \<and>
   on_get unauthorized [] (blobGet browserConfig (filename otherImage)) =
     Inl (statusError 401 ''Bad credentials'') \<and>
   \<not> isNotFound (statusError 401 ''Bad credentials'') \<and>
   deleteImage browser unauthorized otherImage [] =
     (Inr \<lparr>delete_success = False,
          delete_error = Some ''Authentication failed. Please check your GitHub token.''\<rparr>,
      [blobGet browserConfig (filename otherImage)]) \<and>
   (409 :: nat) \<notin> {401, 403, 404, 422} \<and>
   getErrorMessage (statusError 409 ''Conflict'') = ''Conflict''"
proof -
  note t = orchestrators_never_reject[of browser unauthorized catFile "[]" "[]" otherImage]
  have g: "on_get unauthorized [] (blobGet browserConfig (filename otherImage)) =
             Inl (statusError 401 ''Bad credentials'')"
    by (simp add: unauthorized_def)
  have n: "\<not> isNotFound (statusError 401 ''Bad credentials'')"
    by (simp add: isNotFound_def statusError_def)
  have s: "(409 :: nat) \<notin> {401, 403, 404, 422}"
    by simp
  from t browser_config g n
  have run: "deleteImage browser unauthorized otherImage [] =
          (Inr (deleteFailure (statusError 401 ''Bad credentials'')),
           [] @ [blobGet browserConfig (filename otherImage)])"
    by blast
  from t have f: "deleteFailure (statusError 401 ''Bad credentials'') =
          \<lparr>delete_success = False,
           delete_error = Some (getErrorMessage (statusError 401 ''Bad credentials''))\<rparr>"
    by blast
  from t have m401: "getErrorMessage (AxiosError (Some (401, Some ''Bad credentials''))
                       (''Request failed with status code '' @ decimal 401)) =
                     ''Authentication failed. Please check your GitHub token.''"
    by blast
  from t s have m409: "getErrorMessage (AxiosError (Some (409, Some ''Conflict''))
                       (''Request failed with status code '' @ decimal 409)) =
                     (case Some ''Conflict'' of None \<Rightarrow> ''Request failed with status code '' @ decimal 409
                      | Some t \<Rightarrow> if t = [] then ''Request failed with status code '' @ decimal 409 else t)"
    by blast
  show ?thesis
    using browser_config g n s run f m401 m409
    by (simp add: statusError_def)
qed

section \<open>One fetch, at most one write, no retry\<close>

text \<open>
  C2, as stated, fails for \<^verbatim>\<open>deleteImage\<close>: when the catalog file does not exist, the
  early return of line 184 reports success without any write. On the empty repository
  a delete issues the lookup of the blob and the fetch of the catalog, no PUT, and
  succeeds.
\<close>

theorem delete_without_catalog_counterexample:
  "deleteImage browser (storeServer emptyStore) otherImage [] =
     (Inr \<lparr>delete_success = True, delete_error = None\<rparr>,
      [blobGet browserConfig (filename otherImage), catalogGet browserConfig]) \<and>
   filter isPut (snd (deleteImage browser (storeServer emptyStore) otherImage [])) = []"
  by (simp add: delete_from_empty_store blobGet_def catalogGet_def)

text \<open>
  C2, amended. With a complete configuration, the requests of a whole upload and of a
  whole delete are exactly these, and their results exactly these.

  \<^verbatim>\<open>uploadImage\<close>: if the file cannot be read nothing is issued; otherwise the blob is
  written; if that write is rejected the operation fails there. Otherwise the catalog
  synchronization is invoked and issues exactly one fetch of the catalog. Either the
  operation fails with that fetch as its last request, or exactly one write of the
  catalog follows, carrying the revision token of that same fetch (none when the file
  was absent or the token empty), and nothing follows the write: the operation succeeds
  if the write is accepted and fails outright, with the error of the write, if it is
  rejected, a stale token included. There is no second fetch and no second write.

  \<^verbatim>\<open>deleteImage\<close>: the blob is looked up and, when present, deleted; if the lookup or
  the delete is rejected the operation fails there. Otherwise the catalog
  synchronization is invoked and issues exactly one fetch of the catalog. Either the
  operation fails with that fetch as its last request, or the fetch was answered with
  not found and the operation succeeds without any write, or exactly one write follows
  as for an upload, with the same two outcomes.
\<close>

theorem catalog_sync_single_attempt:
  assumes cfg: "getConfig P = Inr cfg"
  shows
   "((\<exists>e. dataURL file = Inl e \<and>
          uploadImage P srv file descr log = (Inr (uploadFailure e), log)) \<or>
     (\<exists>b. fst (fileToBase64 file log) = Inr b \<and>
        ((\<exists>e. on_put srv log (blobPut cfg (generateFilename (Date_now P) (name file)) b) = Inl e \<and>
              uploadImage P srv file descr log =
                (Inr (uploadFailure e),
                 log @ [blobPut cfg (generateFilename (Date_now P) (name file)) b])) \<or>
         (\<exists>s. on_put srv log (blobPut cfg (generateFilename (Date_now P) (name file)) b) = Inr s \<and>
            ((\<exists>e. uploadImage P srv file descr log =
                    (Inr (uploadFailure e),
                     log @ [blobPut cfg (generateFilename (Date_now P) (name file)) b,
                            catalogGet cfg])) \<or>
             (\<exists>pl. snd (uploadImage P srv file descr log) =
                     log @ [blobPut cfg (generateFilename (Date_now P) (name file)) b,
                            catalogGet cfg, catalogPut cfg pl] \<and>
                   put_sha pl =
                     fetchedToken
                       (on_get srv
                          (log @ [blobPut cfg (generateFilename (Date_now P) (name file)) b])
                          (catalogGet cfg)) \<and>
                   fst (uploadImage P srv file descr log) =
                     Inr (case on_put srv
                                 (log @ [blobPut cfg (generateFilename (Date_now P) (name file)) b,
                                         catalogGet cfg])
                                 (catalogPut cfg pl) of
                            Inl e \<Rightarrow> uploadFailure e
                          | Inr x \<Rightarrow>
                              uploadSuccess
                                (githubUrl cfg (generateFilename (Date_now P) (name file)))))))))) \<and>
    ((\<exists>e. on_get srv log (blobGet cfg (filename img)) = Inl e \<and> \<not> isNotFound e \<and>
          deleteImage P srv img log =
            (Inr (deleteFailure e), log @ [blobGet cfg (filename img)])) \<or>
     (\<exists>f e. on_get srv log (blobGet cfg (filename img)) = Inr f \<and>
          on_delete srv (log @ [blobGet cfg (filename img)])
            (blobDelete cfg (filename img) (file_sha f)) = Inl e \<and>
          deleteImage P srv img log =
            (Inr (deleteFailure e),
             log @ [blobGet cfg (filename img),
                    blobDelete cfg (filename img) (file_sha f)])) \<or>
     (\<exists>l1. ((\<exists>e. on_get srv log (blobGet cfg (filename img)) = Inl e \<and> isNotFound e \<and>
                  l1 = log @ [blobGet cfg (filename img)]) \<or>
             (\<exists>f. on_get srv log (blobGet cfg (filename img)) = Inr f \<and>
                  on_delete srv (log @ [blobGet cfg (filename img)])
                    (blobDelete cfg (filename img) (file_sha f)) = Inr () \<and>
                  l1 = log @ [blobGet cfg (filename img),
                              blobDelete cfg (filename img) (file_sha f)])) \<and>
        ((\<exists>e. deleteImage P srv img log = (Inr (deleteFailure e), l1 @ [catalogGet cfg])) \<or>
         (\<exists>e. on_get srv l1 (catalogGet cfg) = Inl e \<and> isNotFound e \<and>
              deleteImage P srv img log = (Inr deleteSuccess, l1 @ [catalogGet cfg])) \<or>
         (\<exists>pl. snd (deleteImage P srv img log) =
                 l1 @ [catalogGet cfg, catalogPut cfg pl] \<and>
               put_sha pl = fetchedToken (on_get srv l1 (catalogGet cfg)) \<and>
               fst (deleteImage P srv img log) =
                 Inr (case on_put srv (l1 @ [catalogGet cfg]) (catalogPut cfg pl) of
                        Inl e \<Rightarrow> deleteFailure e
                      | Inr x \<Rightarrow> deleteSuccess)))))"
  using uploadImage_trace[OF cfg, of "file" srv descr log] deleteImage_trace[OF cfg, of srv log img]
  by (rule conjI)

theorem catalog_sync_single_attempt_witness:
  "getConfig browser = Inr browserConfig \<and>
   length (snd (uploadImage browser (storeServer sampleStore) catFile ''another cat'' [])) \<le> 3 \<and>
   length (snd (deleteImage browser (storeServer sampleStore) otherImage [])) \<le> 4"
  using catalog_sync_single_attempt[OF browser_config, of catFile "storeServer sampleStore"
      "''another cat''" "[]" otherImage]
    browser_config
  by auto

end
